theory Spec2Isabelle
  imports Main
begin

section \<open>Data model\<close>

text \<open>
  The documents of the application (models/Meeting.js, models/MeetingInvitation.js,
  models/Booking.js and the user schema) as records. An ObjectId is a natural number.
  Field names carry a prefix because several schemas share the names \<open>userId\<close>,
  \<open>email\<close>, \<open>status\<close>, \<open>date\<close>. The timestamps of the meetings, the
  invitations and the users, the \<open>_id\<close>s of the participant, day and slot
  subdocuments, the meeting password and the user's credentials play no part in the
  results below and are left out. A Booking keeps what a rebuild renews: the
  \<open>_id\<close>s of its items and its \<open>updatedAt\<close> stamp.
\<close>

type_synonym oid = nat

text \<open>
  The controllers pass user identities in three shapes: an ObjectId object
  (\<open>invitedUser._id\<close>, \<open>participant.userId\<close>, \<open>meeting.hostId\<close>), the string
  form of an ObjectId (\<open>req.user.id\<close>), and, for \<open>checkTimeConflict\<close>, any other string
  such as an email address. The difference is visible to the strict equality
  \<open>x.toString() === userId\<close>, which holds only for the string form.
\<close>

datatype idref = ObjId oid | StrId oid

fun idOf :: "idref \<Rightarrow> oid" where
  "idOf (ObjId n) = n"
| "idOf (StrId n) = n"

text \<open>\<open>o.toString() === userId\<close> for an ObjectId \<open>o\<close>.\<close>

fun toStringEq :: "oid \<Rightarrow> idref \<Rightarrow> bool" where
  "toStringEq n (StrId k) = (n = k)"
| "toStringEq n (ObjId k) = False"

datatype userRef = Ref idref | Text string

datatype pstatus = Pending | Accepted | Rejected

record participant =
  p_userId :: "oid option"
  p_email :: string
  p_status :: pstatus
  p_responseAt :: "int option"

record meeting =
  m_id :: oid
  m_hostId :: oid
  m_title :: string
  m_description :: "string option"
  m_date :: string
  m_startTime :: string
  m_endTime :: string
  m_duration :: nat
  m_timezone :: string
  m_meetingLink :: "string option"
  m_status :: string
  m_isActive :: bool
  m_bannerSettings :: string
  m_participants :: "participant list"

record invitation =
  i_id :: oid
  i_meetingId :: oid
  i_userId :: "oid option"
  i_email :: string
  i_status :: pstatus

record slot =
  s_startTime :: string
  s_endTime :: string

text \<open>
  The \<open>isAvailable\<close> path of a day is a Boolean that may hold \<open>null\<close>
  (\<open>None\<close>): the default \<open>true\<close> only replaces a missing value.
\<close>

record availabilityDay =
  a_day :: string
  a_isAvailable :: "bool option"
  a_slots :: "slot list"

record user =
  u_id :: oid
  u_name :: string
  u_email :: string
  u_availability :: "availabilityDay list"

record meetingItem =
  it_meetingId :: oid
  it_title :: string
  it_date :: string
  it_startTime :: string
  it_endTime :: string
  it_status :: pstatus
  it_hostId :: oid
  it_isActive :: bool

text \<open>
  The lists of a Booking hold subdocuments of \<open>meetingItemSchema\<close>: when a list of
  plain objects is assigned, each object is cast to the schema's paths (a key the schema
  does not declare is dropped) and receives an \<open>_id\<close> of its own, generated then. A
  stored item is the pair of that \<open>_id\<close> and the item.
\<close>

type_synonym storedItem = "oid \<times> meetingItem"

record booking =
  b_userId :: oid
  upcomingMeetings :: "storedItem list"
  pendingMeetings :: "storedItem list"
  canceledMeetings :: "storedItem list"
  pastMeetings :: "storedItem list"
  updatedAt :: int

text \<open>
  The database: one list per collection, in natural (insertion) order, and the counter
  from which fresh ObjectIds are drawn.
\<close>

record store =
  users :: "user list"
  meetings :: "meeting list"
  invitations :: "invitation list"
  bookings :: "booking list"
  nextId :: oid

datatype failure =
    NotFound string
  | Forbidden string
  | BadRequest string
  | Conflict "(oid \<times> string) list"
  | CastError
  | ValidationError

section \<open>The JavaScript runtime\<close>

text \<open>
  A \<open>Date\<close> is its time value in milliseconds, \<open>None\<close> for an Invalid Date (time
  value NaN). The relational operators on two dates compare the time values and are
  false as soon as one of them is NaN.
\<close>

type_synonym instant = "int option"

fun dlt :: "instant \<Rightarrow> instant \<Rightarrow> bool" where
  "dlt (Some a) (Some b) = (a < b)"
| "dlt _ _ = False"

fun dle :: "instant \<Rightarrow> instant \<Rightarrow> bool" where
  "dle (Some a) (Some b) = (a \<le> b)"
| "dle _ _ = False"

definition dgt :: "instant \<Rightarrow> instant \<Rightarrow> bool" where
  "dgt a b = dlt b a"

definition dge :: "instant \<Rightarrow> instant \<Rightarrow> bool" where
  "dge a b = dle b a"

text \<open>
  What the built-ins compute depends on the engine and on the server's time zone
  (\<open>new Date(string)\<close> is implementation-defined outside the ISO format), so the
  controllers are modelled over a runtime that supplies them. The type \<open>'n\<close> is the
  runtime's type of numbers, NaN included:
  \<^item> \<open>dateOfString s\<close> is \<open>new Date(s)\<close>;
  \<^item> \<open>toNumber s\<close> is \<open>Number(s)\<close>;
  \<^item> \<open>minusOne x\<close> is \<open>x - 1\<close>, where \<open>x\<close> is a number or \<open>undefined\<close>
    (\<open>None\<close>);
  \<^item> \<open>dateOfFields [y, m, d, ...]\<close> is \<open>new Date(y, m, d, ...)\<close>, an argument
    \<open>None\<close> being \<open>undefined\<close>;
  \<^item> \<open>startOfDay t\<close> is the time value after \<open>setHours(0, 0, 0, 0)\<close>;
  \<^item> \<open>toLowerCase s\<close> is \<open>s.toLowerCase()\<close> and \<open>trim s\<close> is \<open>s.trim()\<close>,
    which the schema setters \<open>lowercase\<close> and \<open>trim\<close> apply.
\<close>

record 'n runtime =
  dateOfString :: "string \<Rightarrow> instant"
  toNumber :: "string \<Rightarrow> 'n"
  minusOne :: "'n option \<Rightarrow> 'n"
  dateOfFields :: "'n option list \<Rightarrow> instant"
  startOfDay :: "int \<Rightarrow> int"
  toLowerCase :: "string \<Rightarrow> string"
  trim :: "string \<Rightarrow> string"

text \<open>\<open>s.split(c)\<close> for a one-character separator.\<close>

fun splitOn :: "char \<Rightarrow> string \<Rightarrow> string list" where
  "splitOn c [] = [[]]"
| "splitOn c (x # xs) =
     (if x = c then [] # splitOn c xs
      else (case splitOn c xs of
              w # ws \<Rightarrow> (x # w) # ws
            | [] \<Rightarrow> [[x]]))"

text \<open>
  Array destructuring \<open>[a, b, c] = xs.map(Number)\<close>: a position beyond the end of the
  array is \<open>undefined\<close>.
\<close>

definition elt :: "'a list \<Rightarrow> nat \<Rightarrow> 'a option" where
  "elt xs i = (if i < length xs then Some (xs ! i) else None)"

text \<open>JavaScript truthiness of an optional string: \<open>undefined\<close> and \<open>''\<close> are falsy.\<close>

fun truthy :: "string option \<Rightarrow> bool" where
  "truthy None = False"
| "truthy (Some s) = (s \<noteq> [])"

text \<open>\<open>a || b\<close> for an optional string \<open>a\<close> and a string \<open>b\<close>.\<close>

definition orElse :: "string option \<Rightarrow> string \<Rightarrow> string" where
  "orElse a b = (case a of Some s \<Rightarrow> (if s \<noteq> [] then s else b) | None \<Rightarrow> b)"

subsection \<open>A reference runtime\<close>

text \<open>
  The general results below hold for every runtime. Concrete scenarios are evaluated on
  this one, a server whose local time is UTC. Its numbers are the integers and NaN
  (\<open>None\<close>). It reads
  \<^item> as a number: an optionally signed string of decimal digits, blanks around it
    allowed, and the empty or blank string as 0; every other string is NaN for it
    (the numerals with a fraction, an exponent or a radix prefix, which \<open>Number\<close>
    reads, are not used below);
  \<^item> as a date: \<open>YYYY-MM-DDTHH:MM\<close> with a month from 01 to 12, a day from 01 to
    31 (a day beyond the end of the month runs into the next one) and a time up to
    23:59, or 24:00; every other string is an Invalid Date for it (the engine's fallback
    parser, which reads some of them, is not modelled);
  and it lowers and trims the ASCII characters only. Time values are integers of any
  size: the limit of 8.64e15 ms beyond which the engine makes a date invalid is not
  modelled. The scenarios stay within these bounds.
\<close>

definition digitOf :: "char \<Rightarrow> int option" where
  "digitOf c =
     map_of [(CHR ''0'', 0), (CHR ''1'', 1), (CHR ''2'', 2), (CHR ''3'', 3), (CHR ''4'', 4),
             (CHR ''5'', 5), (CHR ''6'', 6), (CHR ''7'', 7), (CHR ''8'', 8), (CHR ''9'', 9)] c"

fun digitsValue :: "string \<Rightarrow> int \<Rightarrow> int option" where
  "digitsValue [] acc = Some acc"
| "digitsValue (c # cs) acc =
     (case digitOf c of None \<Rightarrow> None | Some d \<Rightarrow> digitsValue cs (10 * acc + d))"

definition isBlank :: "char \<Rightarrow> bool" where
  "isBlank c = (c \<in> set [CHR '' '', CHR 0x09, CHR 0x0A, CHR 0x0B, CHR 0x0C, CHR 0x0D])"

definition asciiTrim :: "string \<Rightarrow> string" where
  "asciiTrim s = rev (dropWhile isBlank (rev (dropWhile isBlank s)))"

text \<open>A non-empty string of digits, as the date parser needs it.\<close>

definition digitString :: "string \<Rightarrow> int option" where
  "digitString s = (if s = [] then None else digitsValue s 0)"

fun signedDigits :: "string \<Rightarrow> int option" where
  "signedDigits [] = Some 0"
| "signedDigits (c # cs) =
     (if c = CHR ''-'' then map_option uminus (digitString cs)
      else if c = CHR ''+'' then digitString cs
      else digitString (c # cs))"

definition decimalNumber :: "string \<Rightarrow> int option" where
  "decimalNumber s = signedDigits (asciiTrim s)"

text \<open>Days from 1970-01-01 to the given day of the proleptic Gregorian calendar.\<close>

definition daysFromCivil :: "int \<Rightarrow> int \<Rightarrow> int \<Rightarrow> int" where
  "daysFromCivil y m d =
     (let y' = (if m \<le> 2 then y - 1 else y);
          era = y' div 400;
          yoe = y' mod 400;
          mp = (m + 9) mod 12;
          doy = (153 * mp + 2) div 5 + d - 1;
          doe = yoe * 365 + yoe div 4 - yoe div 100 + doy
      in era * 146097 + doe - 719468)"

definition localMillis :: "int \<Rightarrow> int \<Rightarrow> int \<Rightarrow> int \<Rightarrow> int \<Rightarrow> int" where
  "localMillis y m0 d h mi =
     (let y2 = (if 0 \<le> y \<and> y \<le> 99 then 1900 + y else y);
          days = daysFromCivil (y2 + m0 div 12) (m0 mod 12 + 1) 1 + (d - 1)
      in days * 86400000 + h * 3600000 + mi * 60000)"

fun utcDateOfFields :: "int option option list \<Rightarrow> instant" where
  "utcDateOfFields [Some (Some y), Some (Some m0), Some (Some d)] =
     Some (localMillis y m0 d 0 0)"
| "utcDateOfFields [Some (Some y), Some (Some m0), Some (Some d), Some (Some h), Some (Some mi)] =
     Some (localMillis y m0 d h mi)"
| "utcDateOfFields _ = None"

fun nanMinusOne :: "int option option \<Rightarrow> int option" where
  "nanMinusOne (Some (Some n)) = Some (n - 1)"
| "nanMinusOne _ = None"

definition isoDateOfString :: "string \<Rightarrow> instant" where
  "isoDateOfString s =
     (case splitOn CHR ''T'' s of
        [d, t] \<Rightarrow>
          (let ds = splitOn CHR ''-'' d; ts = splitOn CHR '':'' t in
           if map length ds = [4, 2, 2] \<and> map length ts = [2, 2] then
             (case those (map digitString (ds @ ts)) of
                Some [y, mo, dd, h, mi] \<Rightarrow>
                  (if 1 \<le> mo \<and> mo \<le> 12 \<and> 1 \<le> dd \<and> dd \<le> 31 \<and>
                      ((h \<le> 23 \<and> mi \<le> 59) \<or> (h = 24 \<and> mi = 0))
                   then Some ((daysFromCivil y mo 1 + (dd - 1)) * 86400000 + h * 3600000 +
                              mi * 60000)
                   else None)
              | _ \<Rightarrow> None)
           else None)
      | _ \<Rightarrow> None)"

definition asciiLower :: "char \<Rightarrow> char" where
  "asciiLower c =
     (case map_of (zip ''ABCDEFGHIJKLMNOPQRSTUVWXYZ'' ''abcdefghijklmnopqrstuvwxyz'') c of
        Some l \<Rightarrow> l
      | None \<Rightarrow> c)"

definition rt0 :: "int option runtime" where
  "rt0 = \<lparr> dateOfString = isoDateOfString,
           toNumber = decimalNumber,
           minusOne = nanMinusOne,
           dateOfFields = utcDateOfFields,
           startOfDay = (\<lambda>t. t - t mod 86400000),
           toLowerCase = map asciiLower,
           trim = asciiTrim \<rparr>"

section \<open>Queries\<close>

definition findUserById :: "store \<Rightarrow> oid \<Rightarrow> user option" where
  "findUserById s n = find (\<lambda>u. u_id u = n) (users s)"

text \<open>
  \<open>User.findOne({ email })\<close>: the filter is cast by the user schema, whose
  \<open>lowercase\<close> setter lowers the address before it is compared.
\<close>

definition findUserByEmail :: "'n runtime \<Rightarrow> store \<Rightarrow> string \<Rightarrow> user option" where
  "findUserByEmail rt s e = find (\<lambda>u. u_email u = toLowerCase rt e) (users s)"

definition findMeetingById :: "store \<Rightarrow> oid \<Rightarrow> meeting option" where
  "findMeetingById s n = find (\<lambda>m. m_id m = n) (meetings s)"

definition findInvitationById :: "store \<Rightarrow> oid \<Rightarrow> invitation option" where
  "findInvitationById s n = find (\<lambda>i. i_id i = n) (invitations s)"

definition findBooking :: "store \<Rightarrow> oid \<Rightarrow> booking option" where
  "findBooking s n = find (\<lambda>b. b_userId b = n) (bookings s)"

section \<open>The conflict detector (meetingController.js, checkTimeConflict)\<close>

text \<open>
  The overlap test of the loop, on the four dates it builds.
\<close>

definition overlapTest :: "instant \<Rightarrow> instant \<Rightarrow> instant \<Rightarrow> instant \<Rightarrow> bool" where
  "overlapTest newStartTime newEndTime meetingStartTime meetingEndTime =
     ((dge newStartTime meetingStartTime \<and> dlt newStartTime meetingEndTime) \<or>
      (dgt newEndTime meetingStartTime \<and> dle newEndTime meetingEndTime) \<or>
      (dle newStartTime meetingStartTime \<and> dge newEndTime meetingEndTime))"

definition dateTime :: "'n runtime \<Rightarrow> string \<Rightarrow> string \<Rightarrow> instant" where
  "dateTime rt date time = dateOfString rt (date @ ''T'' @ time)"

definition conflictsWith :: "'n runtime \<Rightarrow> string \<Rightarrow> string \<Rightarrow> string \<Rightarrow> meeting \<Rightarrow> bool" where
  "conflictsWith rt date startTime endTime m =
     overlapTest (dateTime rt date startTime) (dateTime rt date endTime)
       (dateTime rt (m_date m) (m_startTime m)) (dateTime rt (m_date m) (m_endTime m))"

text \<open>
  The MongoDB filter. The two conditions on \<open>participants\<close> are not tied to one array
  element (there is no \<open>$elemMatch\<close>): a meeting matches when some participant has the
  user's id and some participant is accepted.
\<close>

definition conflictQuery :: "oid \<Rightarrow> string \<Rightarrow> oid option \<Rightarrow> meeting \<Rightarrow> bool" where
  "conflictQuery userIdToCheck date excludeMeetingId m =
     (m_date m = date \<and>
      ((list_ex (\<lambda>p. p_userId p = Some userIdToCheck) (m_participants m) \<and>
        list_ex (\<lambda>p. p_status p = Accepted) (m_participants m)) \<or>
       m_hostId m = userIdToCheck) \<and>
      (case excludeMeetingId of None \<Rightarrow> True | Some x \<Rightarrow> m_id m \<noteq> x))"

definition isEmail :: "userRef \<Rightarrow> bool" where
  "isEmail userId = (case userId of Text t \<Rightarrow> CHR ''@'' \<in> set t | Ref r \<Rightarrow> False)"

text \<open>
  A string without \<open>@\<close> that is not the string form of an ObjectId cannot be cast by
  the query and makes \<open>Meeting.find\<close> throw.
\<close>

definition checkTimeConflict ::
  "'n runtime \<Rightarrow> store \<Rightarrow> userRef \<Rightarrow> string \<Rightarrow> string \<Rightarrow> string \<Rightarrow> oid option
     \<Rightarrow> failure + meeting option" where
  "checkTimeConflict rt s userId date startTime endTime excludeMeetingId =
     (case userId of
        Text t \<Rightarrow>
          (if isEmail userId then
             (case findUserByEmail rt s t of
                Some u \<Rightarrow>
                  Inr (find (conflictsWith rt date startTime endTime)
                         (filter (conflictQuery (u_id u) date excludeMeetingId) (meetings s)))
              | None \<Rightarrow> Inr None)
           else Inl CastError)
      | Ref r \<Rightarrow>
          Inr (find (conflictsWith rt date startTime endTime)
                 (filter (conflictQuery (idOf r) date excludeMeetingId) (meetings s))))"

section \<open>The booking projection (meetingController.js, updateUserBookings)\<close>

text \<open>
  The four arrays the rebuild fills. The clock is read once: \<open>now\<close> is the time value
  of \<open>new Date()\<close> for the whole rebuild. The start date-time that the loop also
  builds is never used and is left out.
\<close>

record categories =
  upcomingList :: "meetingItem list"
  pendingList :: "meetingItem list"
  canceledList :: "meetingItem list"
  pastList :: "meetingItem list"

definition noCategories :: categories where
  "noCategories = \<lparr> upcomingList = [], pendingList = [], canceledList = [], pastList = [] \<rparr>"

definition meetingDateOf :: "'n runtime \<Rightarrow> meeting \<Rightarrow> instant" where
  "meetingDateOf rt m =
     (let ds = map (toNumber rt) (splitOn CHR ''-'' (m_date m));
          year = elt ds 0; month = elt ds 1; day = elt ds 2
      in dateOfFields rt [year, Some (minusOne rt month), day])"

definition endDateTimeOf :: "'n runtime \<Rightarrow> meeting \<Rightarrow> instant" where
  "endDateTimeOf rt m =
     (let ds = map (toNumber rt) (splitOn CHR ''-'' (m_date m));
          year = elt ds 0; month = elt ds 1; day = elt ds 2;
          es = map (toNumber rt) (splitOn CHR '':'' (m_endTime m));
          endHours = elt es 0; endMinutes = elt es 1
      in dateOfFields rt [year, Some (minusOne rt month), day, endHours, endMinutes])"

definition isPast :: "'n runtime \<Rightarrow> int \<Rightarrow> meeting \<Rightarrow> bool" where
  "isPast rt now m =
     (let meetingDate = meetingDateOf rt m;
          today = Some (startOfDay rt now);
          endDateTime = endDateTimeOf rt m
      in dlt meetingDate today \<or> dlt endDateTime (Some now))"

definition participantRecord :: "idref \<Rightarrow> user \<Rightarrow> meeting \<Rightarrow> participant option" where
  "participantRecord userId usr m =
     find (\<lambda>p. (case p_userId p of Some n \<Rightarrow> toStringEq n userId | None \<Rightarrow> False) \<or>
                p_email p = u_email usr)
       (m_participants m)"

definition meetingData :: "meeting \<Rightarrow> pstatus \<Rightarrow> meetingItem" where
  "meetingData m status =
     \<lparr> it_meetingId = m_id m, it_title = m_title m, it_date = m_date m,
       it_startTime = m_startTime m, it_endTime = m_endTime m, it_status = status,
       it_hostId = m_hostId m, it_isActive = m_isActive m \<rparr>"

text \<open>
  The body of the loop runs in a \<open>try\<close> block. Its log lines call
  \<open>toISOString()\<close> on the meeting date and on the end date-time, which throws on an
  Invalid Date; the \<open>catch\<close> logs the error and the loop goes on, so a meeting whose
  date or end time does not give a valid date is put in no list.
\<close>

fun categorize ::
  "'n runtime \<Rightarrow> int \<Rightarrow> idref \<Rightarrow> user \<Rightarrow> meeting list \<Rightarrow> categories \<Rightarrow> categories" where
  "categorize rt now userId usr [] acc = acc"
| "categorize rt now userId usr (m # ms) acc =
     (if meetingDateOf rt m = None \<or> endDateTimeOf rt m = None then
        categorize rt now userId usr ms acc
      else
        (case participantRecord userId usr m of
           None \<Rightarrow> categorize rt now userId usr ms acc
         | Some pr \<Rightarrow>
             (let isHost = toStringEq (m_hostId m) userId;
                  status = p_status pr;
                  item = meetingData m status
              in categorize rt now userId usr ms
                   (if isPast rt now m then
                      acc\<lparr>pastList := pastList acc @ [item]\<rparr>
                    else if m_status m = ''cancelled'' \<or> status = Rejected then
                      acc\<lparr>canceledList := canceledList acc @ [item]\<rparr>
                    else if status = Pending \<and> \<not> isHost then
                      acc\<lparr>pendingList := pendingList acc @ [item]\<rparr>
                    else if status = Accepted \<or> isHost then
                      acc\<lparr>upcomingList := upcomingList acc @ [item]\<rparr>
                    else acc))))"

text \<open>\<open>Meeting.find\<close> for the meetings the user hosts or takes part in (by id).\<close>

definition involves :: "oid \<Rightarrow> meeting \<Rightarrow> bool" where
  "involves n m = (m_hostId m = n \<or> list_ex (\<lambda>p. p_userId p = Some n) (m_participants m))"

fun replaceFirst :: "('a \<Rightarrow> bool) \<Rightarrow> 'a \<Rightarrow> 'a list \<Rightarrow> 'a list" where
  "replaceFirst P y [] = []"
| "replaceFirst P y (x # xs) = (if P x then y # xs else x # replaceFirst P y xs)"

text \<open>
  \<open>booking.save()\<close>: the user's Booking document is replaced, or inserted when the
  user had none (\<open>userId\<close> is a unique key of the collection). The \<open>pre('save')\<close>
  hook of models/Booking.js stamps \<open>updatedAt\<close> with the time of the save.
\<close>

definition saveBooking :: "booking \<Rightarrow> store \<Rightarrow> store" where
  "saveBooking b s =
     (if list_ex (\<lambda>x. b_userId x = b_userId b) (bookings s)
      then s\<lparr>bookings := replaceFirst (\<lambda>x. b_userId x = b_userId b) b (bookings s)\<rparr>
      else s\<lparr>bookings := bookings s @ [b]\<rparr>)"

text \<open>
  The four assignments \<open>booking.upcomingMeetings = upcomingMeetings\<close>, ...: each list
  is cast to subdocuments, which draw fresh ids, one after the other.
\<close>

fun withIds :: "oid \<Rightarrow> 'a list \<Rightarrow> (oid \<times> 'a) list" where
  "withIds n [] = []"
| "withIds n (x # xs) = (n, x) # withIds (Suc n) xs"

definition itemCount :: "categories \<Rightarrow> nat" where
  "itemCount c =
     length (upcomingList c) + length (pendingList c) + length (canceledList c) +
     length (pastList c)"

definition fillBooking :: "int \<Rightarrow> store \<Rightarrow> oid \<Rightarrow> categories \<Rightarrow> booking" where
  "fillBooking now s n c =
     (let n0 = nextId s;
          n1 = n0 + length (upcomingList c);
          n2 = n1 + length (pendingList c);
          n3 = n2 + length (canceledList c)
      in (case findBooking s n of
            Some b \<Rightarrow> b
          | None \<Rightarrow> \<lparr> b_userId = n, upcomingMeetings = [], pendingMeetings = [],
                      canceledMeetings = [], pastMeetings = [], updatedAt = now \<rparr>)
         \<lparr> upcomingMeetings := withIds n0 (upcomingList c),
           pendingMeetings := withIds n1 (pendingList c),
           canceledMeetings := withIds n2 (canceledList c),
           pastMeetings := withIds n3 (pastList c),
           updatedAt := now \<rparr>)"

text \<open>A Booking without the ids of its items: the four lists of plain items.\<close>

definition plainLists :: "booking \<Rightarrow> categories" where
  "plainLists b =
     \<lparr> upcomingList = map snd (upcomingMeetings b), pendingList = map snd (pendingMeetings b),
       canceledList = map snd (canceledMeetings b), pastList = map snd (pastMeetings b) \<rparr>"

text \<open>
  The validators of \<open>meetingItemSchema\<close>, which \<open>booking.save()\<close> runs on every
  item: \<open>title\<close>, \<open>date\<close>, \<open>startTime\<close> and \<open>endTime\<close> are required strings
  (an empty string fails), \<open>meetingId\<close> is required and always given, and the three
  participant statuses all belong to the enum of the item's \<open>status\<close>.
\<close>

definition validItem :: "meetingItem \<Rightarrow> bool" where
  "validItem it =
     (it_title it \<noteq> [] \<and> it_date it \<noteq> [] \<and> it_startTime it \<noteq> [] \<and> it_endTime it \<noteq> [])"

definition validCategories :: "categories \<Rightarrow> bool" where
  "validCategories c =
     (list_all validItem (upcomingList c) \<and> list_all validItem (pendingList c) \<and>
      list_all validItem (canceledList c) \<and> list_all validItem (pastList c))"

text \<open>
  The assignments and \<open>booking.save()\<close>. The ids are drawn when the lists are
  assigned, before the validation; a save that fails validation throws and writes
  nothing.
\<close>

definition storeBooking ::
  "int \<Rightarrow> oid \<Rightarrow> categories \<Rightarrow> store \<Rightarrow> (failure + booking) \<times> store" where
  "storeBooking now n c s =
     (let b = fillBooking now s n c;
          s1 = s\<lparr>nextId := nextId s + itemCount c\<rparr>
      in if validCategories c then (Inr b, saveBooking b s1) else (Inl ValidationError, s1))"

text \<open>
  The rebuild returns \<open>null\<close> when the user does not exist, and the Booking it saved
  otherwise; it throws when the save does.
\<close>

definition updateUserBookings ::
  "'n runtime \<Rightarrow> int \<Rightarrow> idref \<Rightarrow> store \<Rightarrow> (failure + booking option) \<times> store" where
  "updateUserBookings rt now userId s =
     (let allMeetings = filter (involves (idOf userId)) (meetings s) in
      case findUserById s (idOf userId) of
        None \<Rightarrow> (Inr None, s)
      | Some usr \<Rightarrow>
          (let c = categorize rt now userId usr allMeetings noCategories
           in case storeBooking now (idOf userId) c s of
                (Inl e, s') \<Rightarrow> (Inl e, s')
              | (Inr b, s') \<Rightarrow> (Inr (Some b), s')))"

section \<open>The dashboard refresh (bookingController.js, refreshBookings)\<close>

text \<open>
  The refresh builds the end date-time as the rebuild does, and does not log it: nothing
  throws here.
\<close>

definition endPassed :: "'n runtime \<Rightarrow> int \<Rightarrow> meeting \<Rightarrow> bool" where
  "endPassed rt now m = dlt (endDateTimeOf rt m) (Some now)"

fun refreshMeetings ::
  "'n runtime \<Rightarrow> int \<Rightarrow> oid \<Rightarrow> meeting list \<Rightarrow> categories \<Rightarrow> categories" where
  "refreshMeetings rt now uid [] acc = acc"
| "refreshMeetings rt now uid (m # ms) acc =
     (let participantEntry = find (\<lambda>p. p_userId p = Some uid) (m_participants m) in
      if participantEntry = None \<and> m_hostId m \<noteq> uid then refreshMeetings rt now uid ms acc
      else
        (let item = meetingData m (case participantEntry of Some p \<Rightarrow> p_status p | None \<Rightarrow> Accepted)
         in refreshMeetings rt now uid ms
              (if endPassed rt now m then
                 acc\<lparr>pastList := pastList acc @ [item]\<rparr>
               else if m_status m = ''canceled'' then
                 acc\<lparr>canceledList := canceledList acc @ [item]\<rparr>
               else if (case participantEntry of Some p \<Rightarrow> p_status p = Accepted | None \<Rightarrow> False)
                       \<or> m_hostId m = uid then
                 acc\<lparr>upcomingList := upcomingList acc @ [item]\<rparr>
               else acc)))"

text \<open>
  The object pushed for a pending Invitation has the key \<open>invitationId\<close>.
  \<open>meetingItemSchema\<close> declares no such path, so the cast drops it: the item that is
  stored, and returned in the response, is the meeting's item with status pending and no
  Invitation id.
\<close>

fun refreshInvitations ::
  "'n runtime \<Rightarrow> int \<Rightarrow> store \<Rightarrow> invitation list \<Rightarrow> categories \<Rightarrow> categories" where
  "refreshInvitations rt now s [] acc = acc"
| "refreshInvitations rt now s (iv # ivs) acc =
     (case findMeetingById s (i_meetingId iv) of
        None \<Rightarrow> refreshInvitations rt now s ivs acc
      | Some m \<Rightarrow>
          refreshInvitations rt now s ivs
            (if \<not> endPassed rt now m then
               acc\<lparr>pendingList := pendingList acc @ [meetingData m Pending]\<rparr>
             else acc))"

definition pendingInvitationsFor :: "'n runtime \<Rightarrow> store \<Rightarrow> user \<Rightarrow> invitation list" where
  "pendingInvitationsFor rt s usr =
     filter (\<lambda>i. (i_userId i = Some (u_id usr) \<or> i_email i = toLowerCase rt (u_email usr)) \<and>
                i_status i = Pending)
       (invitations s)"

definition refreshBookings ::
  "'n runtime \<Rightarrow> int \<Rightarrow> user \<Rightarrow> store \<Rightarrow> (failure + booking) \<times> store" where
  "refreshBookings rt now reqUser s =
     (let allMeetings = filter (involves (u_id reqUser)) (meetings s);
          pendingInvitations = pendingInvitationsFor rt s reqUser;
          c1 = refreshMeetings rt now (u_id reqUser) allMeetings noCategories;
          c2 = refreshInvitations rt now s pendingInvitations c1
      in storeBooking now (u_id reqUser) c2 s)"

section \<open>Requests and schema validation\<close>

text \<open>
  The request body of the meeting routes, restricted to the paths of the Meeting schema
  and the \<open>invitees\<close> array. A field is \<open>None\<close> when the body does not carry it.
\<close>

record meetingBody =
  mb_title :: "string option"
  mb_description :: "string option"
  mb_date :: "string option"
  mb_startTime :: "string option"
  mb_endTime :: "string option"
  mb_duration :: "nat option"
  mb_timezone :: "string option"
  mb_meetingLink :: "string option"
  mb_status :: "string option"
  mb_isActive :: "bool option"
  mb_bannerSettings :: "string option"
  mb_participants :: "participant list option"
  mb_invitees :: "string list option"

definition emptyBody :: meetingBody where
  "emptyBody =
     \<lparr> mb_title = None, mb_description = None, mb_date = None, mb_startTime = None,
       mb_endTime = None, mb_duration = None, mb_timezone = None, mb_meetingLink = None,
       mb_status = None, mb_isActive = None, mb_bannerSettings = None,
       mb_participants = None, mb_invitees = None \<rparr>"

text \<open>
  The validators of models/Meeting.js: the required strings must be non-empty, the
  status must belong to the enum, and every participant needs a \<open>userId\<close> and an
  email (both are \<open>required\<close> in the participant schema). They see the values the
  setters have produced: the title and the description are trimmed first.
\<close>

definition validStatus :: "string \<Rightarrow> bool" where
  "validStatus st = (st \<in> set [''upcoming'', ''pending'', ''cancelled'', ''past''])"

definition validParticipant :: "participant \<Rightarrow> bool" where
  "validParticipant p = (p_userId p \<noteq> None \<and> p_email p \<noteq> [])"

definition validMeeting :: "meeting \<Rightarrow> bool" where
  "validMeeting m =
     (m_title m \<noteq> [] \<and> m_date m \<noteq> [] \<and> m_startTime m \<noteq> [] \<and> m_endTime m \<noteq> [] \<and>
      validStatus (m_status m) \<and> list_all validParticipant (m_participants m))"

definition optOr :: "'a option \<Rightarrow> 'a \<Rightarrow> 'a" where
  "optOr x d = (case x of Some v \<Rightarrow> v | None \<Rightarrow> d)"

text \<open>
  The document \<open>Meeting.create\<close> builds from a body, with the schema setters and
  defaults; \<open>None\<close> when a required path is missing or a validator fails.
\<close>

definition newMeeting :: "'n runtime \<Rightarrow> oid \<Rightarrow> oid \<Rightarrow> meetingBody \<Rightarrow> meeting option" where
  "newMeeting rt n host body =
     (let m = \<lparr> m_id = n, m_hostId = host,
                m_title = trim rt (optOr (mb_title body) []),
                m_description = map_option (trim rt) (mb_description body),
                m_date = optOr (mb_date body) [],
                m_startTime = optOr (mb_startTime body) [],
                m_endTime = optOr (mb_endTime body) [],
                m_duration = optOr (mb_duration body) 0,
                m_timezone = optOr (mb_timezone body) ''Asia/Kolkata'',
                m_meetingLink = mb_meetingLink body,
                m_status = optOr (mb_status body) ''upcoming'',
                m_isActive = optOr (mb_isActive body) True,
                m_bannerSettings = optOr (mb_bannerSettings body) ''#3498db'',
                m_participants = optOr (mb_participants body) [] \<rparr>
      in if mb_duration body \<noteq> None \<and> validMeeting m then Some m else None)"

definition insertMeeting :: "meeting \<Rightarrow> store \<Rightarrow> store" where
  "insertMeeting m s = s\<lparr>meetings := meetings s @ [m], nextId := Suc (nextId s)\<rparr>"

definition saveMeeting :: "meeting \<Rightarrow> store \<Rightarrow> store" where
  "saveMeeting m s = s\<lparr>meetings := replaceFirst (\<lambda>x. m_id x = m_id m) m (meetings s)\<rparr>"

text \<open>
  \<open>MeetingInvitation.create\<close>; the schema's \<open>lowercase\<close> setter lowers the
  email.
\<close>

definition createInvitation ::
  "'n runtime \<Rightarrow> oid \<Rightarrow> oid option \<Rightarrow> string \<Rightarrow> store \<Rightarrow> invitation \<times> store" where
  "createInvitation rt mid uid email s =
     (let iv = \<lparr> i_id = nextId s, i_meetingId = mid, i_userId = uid,
                 i_email = toLowerCase rt email, i_status = Pending \<rparr>
      in (iv, s\<lparr>invitations := invitations s @ [iv], nextId := Suc (nextId s)\<rparr>))"

definition saveInvitation :: "invitation \<Rightarrow> store \<Rightarrow> store" where
  "saveInvitation iv s =
     s\<lparr>invitations := replaceFirst (\<lambda>x. i_id x = i_id iv) iv (invitations s)\<rparr>"

definition hostParticipant :: "user \<Rightarrow> participant" where
  "hostParticipant reqUser =
     \<lparr> p_userId = Some (u_id reqUser), p_email = u_email reqUser, p_status = Accepted,
       p_responseAt = None \<rparr>"

section \<open>Creating a meeting (meetingController.js, createMeeting)\<close>

text \<open>
  The callback mapped over \<open>req.body.invitees\<close>. It returns the per-invitee result
  and the participant it pushed on the in-memory meeting, if any. The conflict check
  receives the body's date and times, which are the created document's.
\<close>

definition inviteOne ::
  "'n runtime \<Rightarrow> int \<Rightarrow> meeting \<Rightarrow> string \<Rightarrow> store
     \<Rightarrow> (failure + (string \<times> string) \<times> participant list) \<times> store" where
  "inviteOne rt now meeting email s =
     (let invitedUser = findUserByEmail rt s email;
          lower = toLowerCase rt email
      in case invitedUser of
           Some u \<Rightarrow>
             (case checkTimeConflict rt s (Ref (ObjId (u_id u))) (m_date meeting)
                     (m_startTime meeting) (m_endTime meeting) None of
                Inl e \<Rightarrow> (Inl e, s)
              | Inr (Some c) \<Rightarrow> (Inr ((email, ''conflict detected''), []), s)
              | Inr None \<Rightarrow>
                  (if toLowerCase rt lower = [] then (Inl ValidationError, s)
                   else
                     (let s1 = snd (createInvitation rt (m_id meeting) (Some (u_id u)) lower s)
                      in case updateUserBookings rt now (ObjId (u_id u)) s1 of
                           (Inl e, s2) \<Rightarrow> (Inl e, s2)
                         | (Inr b, s2) \<Rightarrow>
                             (Inr ((email, ''invitation sent''),
                                   [\<lparr> p_userId = Some (u_id u), p_email = lower,
                                       p_status = Pending, p_responseAt = None \<rparr>]), s2))))
         | None \<Rightarrow>
             (if toLowerCase rt lower = [] then (Inl ValidationError, s)
              else (Inr ((email, ''invitation sent''),
                         [\<lparr> p_userId = None, p_email = lower, p_status = Pending,
                             p_responseAt = None \<rparr>]),
                    snd (createInvitation rt (m_id meeting) None lower s))))"

text \<open>
  \<open>Promise.all\<close> over the callbacks, which run concurrently. No callback reads what
  another one writes, except the Booking of a user invited twice, which both rebuild
  from the same meetings; the schedule only decides the order in which the Invitations
  are inserted and the participants pushed. The schedule taken here completes the
  callbacks in the order of the array. A callback that fails rejects the
  \<open>Promise.all\<close>, and with it the request, but does not stop the others: they still
  write.
\<close>

fun inviteEach ::
  "'n runtime \<Rightarrow> int \<Rightarrow> meeting \<Rightarrow> string list \<Rightarrow> store
     \<Rightarrow> (failure + (string \<times> string) list \<times> participant list) \<times> store" where
  "inviteEach rt now meeting [] s = (Inr ([], []), s)"
| "inviteEach rt now meeting (email # rest) s =
     (case inviteOne rt now meeting email s of
        (r, s1) \<Rightarrow>
          (case inviteEach rt now meeting rest s1 of
             (rs, s2) \<Rightarrow>
               (case r of
                  Inl e \<Rightarrow> (Inl e, s2)
                | Inr (res, pushed) \<Rightarrow>
                    (case rs of
                       Inl e \<Rightarrow> (Inl e, s2)
                     | Inr (results, ps) \<Rightarrow> (Inr (res # results, pushed @ ps), s2)))))"

definition finishCreate ::
  "'n runtime \<Rightarrow> int \<Rightarrow> user \<Rightarrow> meeting \<Rightarrow> (string \<times> string) list option \<Rightarrow> store
     \<Rightarrow> (failure + meeting \<times> (string \<times> string) list option) \<times> store" where
  "finishCreate rt now reqUser meeting results s =
     (if validMeeting meeting then
        (case updateUserBookings rt now (StrId (u_id reqUser)) (saveMeeting meeting s) of
           (Inl e, s') \<Rightarrow> (Inl e, s')
         | (Inr b, s') \<Rightarrow> (Inr (meeting, results), s'))
      else (Inl ValidationError, s))"

definition createMeeting ::
  "'n runtime \<Rightarrow> int \<Rightarrow> user \<Rightarrow> meetingBody \<Rightarrow> store
     \<Rightarrow> (failure + meeting \<times> (string \<times> string) list option) \<times> store" where
  "createMeeting rt now reqUser body s =
     (case newMeeting rt (nextId s) (u_id reqUser) body of
        None \<Rightarrow> (Inl ValidationError, s)
      | Some meeting \<Rightarrow>
          (let s1 = insertMeeting meeting s in
           case mb_invitees body of
             Some (e # es) \<Rightarrow>
               (case inviteEach rt now meeting (e # es) s1 of
                  (Inl err, s2) \<Rightarrow> (Inl err, s2)
                | (Inr (results, pushed), s2) \<Rightarrow>
                    finishCreate rt now reqUser
                      (meeting\<lparr>m_participants :=
                                 m_participants meeting @ pushed @ [hostParticipant reqUser]\<rparr>)
                      (Some results) s2)
           | _ \<Rightarrow>
               finishCreate rt now reqUser
                 (meeting\<lparr>m_participants := m_participants meeting @ [hostParticipant reqUser]\<rparr>)
                 None s1))"

section \<open>Updating a meeting (meetingController.js, updateMeeting)\<close>

definition timeChanged :: "meetingBody \<Rightarrow> meeting \<Rightarrow> bool" where
  "timeChanged body meeting =
     ((truthy (mb_date body) \<and> mb_date body \<noteq> Some (m_date meeting)) \<or>
      (truthy (mb_startTime body) \<and> mb_startTime body \<noteq> Some (m_startTime meeting)) \<or>
      (truthy (mb_endTime body) \<and> mb_endTime body \<noteq> Some (m_endTime meeting)))"

text \<open>The loop that collects the participants whose conflict check finds a meeting.\<close>

fun participantConflicts ::
  "'n runtime \<Rightarrow> store \<Rightarrow> string \<Rightarrow> string \<Rightarrow> string \<Rightarrow> oid \<Rightarrow> participant list
     \<Rightarrow> failure + (oid \<times> string) list" where
  "participantConflicts rt s date startTime endTime mid [] = Inr []"
| "participantConflicts rt s date startTime endTime mid (p # ps) =
     (case p_userId p of
        Some u \<Rightarrow>
          (if p_status p = Accepted then
             (case checkTimeConflict rt s (Ref (ObjId u)) date startTime endTime (Some mid) of
                Inl e \<Rightarrow> Inl e
              | Inr c \<Rightarrow>
                  (case participantConflicts rt s date startTime endTime mid ps of
                     Inl e \<Rightarrow> Inl e
                   | Inr conflicts \<Rightarrow>
                       Inr ((case c of Some x \<Rightarrow> [(u, p_email p)] | None \<Rightarrow> []) @ conflicts)))
           else participantConflicts rt s date startTime endTime mid ps)
      | None \<Rightarrow> participantConflicts rt s date startTime endTime mid ps)"

text \<open>
  \<open>findByIdAndUpdate(id, req.body, {new: true, runValidators: true})\<close>: the paths the
  body carries are cast, with the setters, and set, and the validators run on them.
\<close>

definition applyBody :: "'n runtime \<Rightarrow> meetingBody \<Rightarrow> meeting \<Rightarrow> meeting" where
  "applyBody rt body m =
     m\<lparr> m_title := (case mb_title body of Some t \<Rightarrow> trim rt t | None \<Rightarrow> m_title m),
        m_description :=
          (case mb_description body of Some d \<Rightarrow> Some (trim rt d) | None \<Rightarrow> m_description m),
        m_date := optOr (mb_date body) (m_date m),
        m_startTime := optOr (mb_startTime body) (m_startTime m),
        m_endTime := optOr (mb_endTime body) (m_endTime m),
        m_duration := optOr (mb_duration body) (m_duration m),
        m_timezone := optOr (mb_timezone body) (m_timezone m),
        m_meetingLink := (case mb_meetingLink body of Some l \<Rightarrow> Some l | None \<Rightarrow> m_meetingLink m),
        m_status := optOr (mb_status body) (m_status m),
        m_isActive := optOr (mb_isActive body) (m_isActive m),
        m_bannerSettings := optOr (mb_bannerSettings body) (m_bannerSettings m),
        m_participants := optOr (mb_participants body) (m_participants m) \<rparr>"

definition validBody :: "'n runtime \<Rightarrow> meetingBody \<Rightarrow> bool" where
  "validBody rt body =
     (map_option (trim rt) (mb_title body) \<noteq> Some [] \<and> mb_date body \<noteq> Some [] \<and> mb_startTime body \<noteq> Some [] \<and>
      mb_endTime body \<noteq> Some [] \<and>
      (case mb_status body of Some st \<Rightarrow> validStatus st | None \<Rightarrow> True) \<and>
      (case mb_participants body of Some ps \<Rightarrow> list_all validParticipant ps | None \<Rightarrow> True))"

fun rebuildParticipants ::
  "'n runtime \<Rightarrow> int \<Rightarrow> participant list \<Rightarrow> store \<Rightarrow> failure option \<times> store" where
  "rebuildParticipants rt now [] s = (None, s)"
| "rebuildParticipants rt now (p # ps) s =
     (case p_userId p of
        Some u \<Rightarrow>
          (case updateUserBookings rt now (ObjId u) s of
             (Inl e, s') \<Rightarrow> (Some e, s')
           | (Inr b, s') \<Rightarrow> rebuildParticipants rt now ps s')
      | None \<Rightarrow> rebuildParticipants rt now ps s)"

definition updateMeeting ::
  "'n runtime \<Rightarrow> int \<Rightarrow> user \<Rightarrow> oid \<Rightarrow> meetingBody \<Rightarrow> store \<Rightarrow> (failure + meeting) \<times> store" where
  "updateMeeting rt now reqUser mid body s =
     (case findMeetingById s mid of
        None \<Rightarrow> (Inl (NotFound ''Meeting not found''), s)
      | Some meeting \<Rightarrow>
          (if m_hostId meeting \<noteq> u_id reqUser then
             (Inl (Forbidden ''Not authorized to update this meeting''), s)
           else
             (case (if timeChanged body meeting then
                      participantConflicts rt s
                        (orElse (mb_date body) (m_date meeting))
                        (orElse (mb_startTime body) (m_startTime meeting))
                        (orElse (mb_endTime body) (m_endTime meeting))
                        (m_id meeting) (m_participants meeting)
                    else Inr []) of
                Inl e \<Rightarrow> (Inl e, s)
              | Inr (c # cs) \<Rightarrow> (Inl (Conflict (c # cs)), s)
              | Inr [] \<Rightarrow>
                  (if validBody rt body then
                     (let meeting' = applyBody rt body meeting
                      in case rebuildParticipants rt now (m_participants meeting')
                                (saveMeeting meeting' s) of
                           (Some e, s') \<Rightarrow> (Inl e, s')
                         | (None, s') \<Rightarrow> (Inr meeting', s'))
                   else (Inl ValidationError, s)))))"

text \<open>
  The time-change guard as section 4.3 of the specification words it: the check runs for
  the accepted participants other than the host.
\<close>

definition spec_participantConflicts ::
  "'n runtime \<Rightarrow> store \<Rightarrow> string \<Rightarrow> string \<Rightarrow> string \<Rightarrow> meeting \<Rightarrow> failure + (oid \<times> string) list" where
  "spec_participantConflicts rt s date startTime endTime meeting =
     participantConflicts rt s date startTime endTime (m_id meeting)
       (filter (\<lambda>p. p_userId p \<noteq> Some (m_hostId meeting)) (m_participants meeting))"

text \<open>
  The list the loop builds: one entry for each participant that is accepted, has a
  \<open>userId\<close> and for whom the detector finds a meeting, in the order of the
  participants. The host's own entry is one of them.
\<close>

definition acceptedConflicts ::
  "'n runtime \<Rightarrow> store \<Rightarrow> string \<Rightarrow> string \<Rightarrow> string \<Rightarrow> oid \<Rightarrow> participant list
     \<Rightarrow> (oid \<times> string) list" where
  "acceptedConflicts rt s date startTime endTime mid ps =
     concat (map (\<lambda>p. case p_userId p of
                         Some u \<Rightarrow>
                           (if p_status p = Accepted \<and>
                               checkTimeConflict rt s (Ref (ObjId u)) date startTime endTime (Some mid)
                                 \<noteq> Inr None
                            then [(u, p_email p)] else [])
                       | None \<Rightarrow> [])
               ps)"

section \<open>Responding to an invitation (meetingController.js, respondToInvitation)\<close>

definition ensureInvitationExists ::
  "'n runtime \<Rightarrow> oid \<Rightarrow> oid \<Rightarrow> string \<Rightarrow> store \<Rightarrow> invitation \<times> store" where
  "ensureInvitationExists rt meetingId userId userEmail s =
     (case find (\<lambda>i. i_meetingId i = meetingId \<and>
                     (i_userId i = Some userId \<or> i_email i = toLowerCase rt userEmail))
             (invitations s) of
        Some iv \<Rightarrow> (iv, s)
      | None \<Rightarrow> createInvitation rt meetingId (Some userId) userEmail s)"

fun updateFirst :: "('a \<Rightarrow> bool) \<Rightarrow> ('a \<Rightarrow> 'a) \<Rightarrow> 'a list \<Rightarrow> 'a list" where
  "updateFirst P f [] = []"
| "updateFirst P f (x # xs) = (if P x then f x # xs else x # updateFirst P f xs)"

definition respondParticipants ::
  "int \<Rightarrow> user \<Rightarrow> invitation \<Rightarrow> pstatus \<Rightarrow> participant list \<Rightarrow> participant list" where
  "respondParticipants now reqUser iv st ps =
     (let mine = (\<lambda>p. p_userId p = Some (u_id reqUser) \<or> p_email p = i_email iv) in
      if st = Accepted then
        (if list_ex mine ps then
           updateFirst mine
             (\<lambda>p. p\<lparr> p_status := Accepted, p_responseAt := Some now,
                     p_userId := (case p_userId p of None \<Rightarrow> Some (u_id reqUser) | Some n \<Rightarrow> Some n) \<rparr>)
             ps
         else ps @ [\<lparr> p_userId = Some (u_id reqUser), p_email = i_email iv, p_status = Accepted,
                      p_responseAt = Some now \<rparr>])
      else
        updateFirst mine (\<lambda>p. p\<lparr> p_status := Rejected, p_responseAt := Some now \<rparr>) ps)"

definition lookupInvitation ::
  "'n runtime \<Rightarrow> user \<Rightarrow> oid \<Rightarrow> store \<Rightarrow> (invitation \<times> store) option" where
  "lookupInvitation rt reqUser invitationId s =
     (case findInvitationById s invitationId of
        Some iv \<Rightarrow> Some (iv, s)
      | None \<Rightarrow>
          (case findMeetingById s invitationId of
             Some meeting \<Rightarrow>
               Some (ensureInvitationExists rt (m_id meeting) (u_id reqUser) (u_email reqUser) s)
           | None \<Rightarrow> None))"

definition respondToInvitation ::
  "'n runtime \<Rightarrow> int \<Rightarrow> user \<Rightarrow> oid \<Rightarrow> string \<Rightarrow> store
     \<Rightarrow> (failure + invitation \<times> meeting) \<times> store" where
  "respondToInvitation rt now reqUser invitationId status s =
     (if status \<notin> set [''accepted'', ''rejected''] then
        (Inl (BadRequest ''Please provide a valid status (accepted or rejected)''), s)
      else
        (case lookupInvitation rt reqUser invitationId s of
           None \<Rightarrow> (Inl (NotFound ''Neither invitation nor meeting found with this ID''), s)
         | Some (iv, s0) \<Rightarrow>
             (if (case i_userId iv of Some n \<Rightarrow> n \<noteq> u_id reqUser | None \<Rightarrow> False) \<and>
                 i_email iv \<noteq> u_email reqUser then
                (Inl (Forbidden ''Not authorized to respond to this invitation''), s0)
              else
                (let st = (if status = ''accepted'' then Accepted else Rejected);
                     iv' = iv\<lparr>i_status := st\<rparr>;
                     s1 = saveInvitation iv' s0
                 in case findMeetingById s1 (i_meetingId iv') of
                      None \<Rightarrow> (Inl (NotFound ''Meeting not found''), s1)
                    | Some meeting \<Rightarrow>
                        (let meeting' =
                               meeting\<lparr>m_participants :=
                                         respondParticipants now reqUser iv' st (m_participants meeting)\<rparr>
                         in if validMeeting meeting' then
                              (case updateUserBookings rt now (StrId (u_id reqUser))
                                      (saveMeeting meeting' s1) of
                                 (Inl e, s3) \<Rightarrow> (Inl e, s3)
                               | (Inr b, s3) \<Rightarrow>
                                   (if m_hostId meeting' \<noteq> u_id reqUser then
                                      (case updateUserBookings rt now (ObjId (m_hostId meeting'))
                                              s3 of
                                         (Inl e, s4) \<Rightarrow> (Inl e, s4)
                                       | (Inr hb, s4) \<Rightarrow> (Inr (iv', meeting'), s4))
                                    else (Inr (iv', meeting'), s3)))
                            else (Inl ValidationError, s1))))))"

section \<open>Duplicating a meeting (meetingController.js, duplicateMeeting)\<close>

definition newMeetingData :: "meeting \<Rightarrow> meetingBody \<Rightarrow> meetingBody" where
  "newMeetingData meeting body =
     (let d = \<lparr> mb_title = Some (m_title meeting @ '' (Copy)''),
                mb_description = m_description meeting,
                mb_date = Some (m_date meeting),
                mb_startTime = Some (m_startTime meeting),
                mb_endTime = Some (m_endTime meeting),
                mb_duration = Some (m_duration meeting),
                mb_timezone = Some (m_timezone meeting),
                mb_meetingLink = m_meetingLink meeting,
                mb_status = None,
                mb_isActive = Some True,
                mb_bannerSettings = Some (m_bannerSettings meeting),
                mb_participants = None,
                mb_invitees = None \<rparr>;
          d1 = (if truthy (mb_title body) then d\<lparr>mb_title := mb_title body\<rparr> else d)
      in if truthy (mb_date body) then d1\<lparr>mb_date := mb_date body\<rparr> else d1)"

definition duplicateMeeting ::
  "'n runtime \<Rightarrow> user \<Rightarrow> oid \<Rightarrow> meetingBody \<Rightarrow> store \<Rightarrow> (failure + meeting) \<times> store" where
  "duplicateMeeting rt reqUser mid body s =
     (case findMeetingById s mid of
        None \<Rightarrow> (Inl (NotFound ''Meeting not found''), s)
      | Some meeting \<Rightarrow>
          (if m_hostId meeting \<noteq> u_id reqUser then
             (Inl (Forbidden ''Not authorized to duplicate this meeting''), s)
           else
             (case newMeeting rt (nextId s) (m_hostId meeting) (newMeetingData meeting body) of
                None \<Rightarrow> (Inl ValidationError, s)
              | Some created \<Rightarrow>
                  (let s1 = insertMeeting created s;
                       newMeeting' =
                         created\<lparr>m_participants :=
                                   m_participants created @ [hostParticipant reqUser]\<rparr>
                   in if validMeeting newMeeting' then (Inr newMeeting', saveMeeting newMeeting' s1)
                      else (Inl ValidationError, s1)))))"

section \<open>Availability (userController.js)\<close>

text \<open>
  The body of \<open>PUT /api/availability/:day\<close> is JSON, and the controller tests
  \<open>isAvailable\<close> as it comes: by truthiness, and against \<open>undefined\<close> and
  \<open>false\<close> with strict comparisons. \<open>JUndefined\<close> is a missing key,
  \<open>JNumber n\<close> an integer; \<open>JOther\<close> is a number that is not an integer, an array
  or an object: truthy, and not a Boolean for the schema.
\<close>

datatype json = JUndefined | JNull | JBool bool | JNumber int | JString string | JOther

fun jsTruthy :: "json \<Rightarrow> bool" where
  "jsTruthy JUndefined = False"
| "jsTruthy JNull = False"
| "jsTruthy (JBool b) = b"
| "jsTruthy (JNumber n) = (n \<noteq> 0)"
| "jsTruthy (JString s) = (s \<noteq> [])"
| "jsTruthy JOther = True"

text \<open>
  The cast of the schema's Boolean path: \<open>true\<close>, \<open>'true'\<close>, \<open>1\<close>, \<open>'1'\<close>
  and \<open>'yes'\<close> are true; \<open>false\<close>, \<open>'false'\<close>, \<open>0\<close>, \<open>'0'\<close> and
  \<open>'no'\<close> are false; \<open>null\<close> stays \<open>null\<close>; anything else is a cast error,
  which makes the save fail.
\<close>

fun castBoolean :: "json \<Rightarrow> failure + bool option" where
  "castBoolean (JBool b) = Inr (Some b)"
| "castBoolean (JNumber n) =
     (if n = 1 then Inr (Some True) else if n = 0 then Inr (Some False) else Inl CastError)"
| "castBoolean (JString s) =
     (if s \<in> set [''true'', ''1'', ''yes''] then Inr (Some True)
      else if s \<in> set [''false'', ''0'', ''no''] then Inr (Some False)
      else Inl CastError)"
| "castBoolean JNull = Inr None"
| "castBoolean JUndefined = Inr None"
| "castBoolean JOther = Inl CastError"

text \<open>
  A bound of a slot in the body: \<open>Missing\<close> is a missing key or a falsy value that is
  not a string (\<open>null\<close>, \<open>false\<close>, \<open>0\<close>); \<open>Str s\<close> is the string \<open>s\<close>, or
  a value for which the schema's String path stores \<open>s\<close>: a truthy number or boolean
  whose text is \<open>s\<close>, an object whose \<open>_id\<close> is the non-empty string \<open>s\<close>;
  \<open>Structured\<close> is any other object or an array, which the String path cannot
  cast. An element of the \<open>slots\<close> array is something that is not an object
  (\<open>null\<close>, a number, a string) or an object with its two bounds (an array counts
  as an object without bounds); \<open>slots\<close> is \<open>None\<close> when the body has no array
  there.
\<close>

datatype slotField = Missing | Str string | Structured

datatype slotInput = NotAnObject | SlotObject slotField slotField

fun isSlotObject :: "slotInput \<Rightarrow> bool" where
  "isSlotObject NotAnObject = False"
| "isSlotObject (SlotObject a b) = True"

text \<open>\<open>v || ''\<close> on a bound.\<close>

fun orEmpty :: "slotField \<Rightarrow> slotField" where
  "orEmpty Missing = Str []"
| "orEmpty (Str s) = Str s"
| "orEmpty Structured = Structured"

type_synonym plainSlot = "slotField \<times> slotField"

fun normalizeSlot :: "slotInput \<Rightarrow> plainSlot" where
  "normalizeSlot (SlotObject a b) = (orEmpty a, orEmpty b)"
| "normalizeSlot NotAnObject = (Str [], Str [])"

definition validatedSlots :: "json \<Rightarrow> slotInput list option \<Rightarrow> plainSlot list" where
  "validatedSlots isAvailable slots =
     (case slots of
        Some xs \<Rightarrow>
          (if jsTruthy isAvailable then
             (let v = map normalizeSlot (filter isSlotObject xs)
              in if v = [] then [(Str [], Str [])] else v)
           else [])
      | None \<Rightarrow> [])"

text \<open>
  The cast of a list of plain slots to slot subdocuments, when the list is assigned to
  the \<open>slots\<close> path; \<open>None\<close> when a bound cannot be cast.
\<close>

fun castSlot :: "plainSlot \<Rightarrow> slot option" where
  "castSlot (Str a, Str b) = Some \<lparr> s_startTime = a, s_endTime = b \<rparr>"
| "castSlot _ = None"

definition castSlots :: "plainSlot list \<Rightarrow> slot list option" where
  "castSlots ps = those (map castSlot ps)"

definition allDaySlot :: slot where
  "allDaySlot = \<lparr> s_startTime = [], s_endTime = [] \<rparr>"

definition validDays :: "string list" where
  "validDays = [''Monday'', ''Tuesday'', ''Wednesday'', ''Thursday'', ''Friday'', ''Saturday'',
                ''Sunday'']"

text \<open>
  \<open>user.save()\<close>. The \<open>pre('save')\<close> hook of the user schema calls \<open>next()\<close>
  when the password is not modified, which lets the save go on; the rest of the hook
  only concerns the password.
\<close>

definition saveUser :: "user \<Rightarrow> store \<Rightarrow> store" where
  "saveUser u s = s\<lparr>users := replaceFirst (\<lambda>x. u_id x = u_id u) u (users s)\<rparr>"

text \<open>
  The changes the controller makes to the user's availability before it saves. A value
  that the schema cannot cast makes \<open>user.save()\<close> fail.
\<close>

definition updateDay ::
  "string \<Rightarrow> json \<Rightarrow> plainSlot list \<Rightarrow> availabilityDay list
     \<Rightarrow> failure + availabilityDay list" where
  "updateDay day isAvailable vs av =
     (if \<not> list_ex (\<lambda>a. a_day a = day) av then
        (case ((if isAvailable \<noteq> JUndefined then castBoolean isAvailable else Inr (Some True)),
               castSlots (if isAvailable \<noteq> JBool False then vs else [])) of
           (Inr flag, Some slots) \<Rightarrow>
             Inr (av @ [\<lparr> a_day = day, a_isAvailable = flag, a_slots = slots \<rparr>])
         | _ \<Rightarrow> Inl ValidationError)
      else if isAvailable \<noteq> JUndefined then
        (case (castBoolean isAvailable, castSlots vs) of
           (Inr flag, Some slots) \<Rightarrow>
             Inr (updateFirst (\<lambda>a. a_day a = day)
                    (\<lambda>a. if \<not> jsTruthy isAvailable then
                            a\<lparr>a_isAvailable := flag, a_slots := []\<rparr>
                          else if vs \<noteq> [] then a\<lparr>a_isAvailable := flag, a_slots := slots\<rparr>
                          else if a_slots a = [] then
                            a\<lparr>a_isAvailable := flag, a_slots := [allDaySlot]\<rparr>
                          else a\<lparr>a_isAvailable := flag\<rparr>)
                    av)
         | _ \<Rightarrow> Inl ValidationError)
      else if isAvailable \<noteq> JBool False \<and> vs \<noteq> [] then
        (case castSlots vs of
           Some slots \<Rightarrow> Inr (updateFirst (\<lambda>a. a_day a = day) (\<lambda>a. a\<lparr>a_slots := slots\<rparr>) av)
         | None \<Rightarrow> Inl ValidationError)
      else Inr av)"

definition updateDayAvailability ::
  "user \<Rightarrow> string \<Rightarrow> json \<Rightarrow> slotInput list option \<Rightarrow> store
     \<Rightarrow> (failure + availabilityDay option) \<times> store" where
  "updateDayAvailability reqUser day isAvailable slots s =
     (if day \<notin> set validDays then (Inl (BadRequest ''Please provide a valid day''), s)
      else
        (case findUserById s (u_id reqUser) of
           None \<Rightarrow> (Inl (NotFound ''User not found''), s)
         | Some usr \<Rightarrow>
             (case updateDay day isAvailable (validatedSlots isAvailable slots)
                     (u_availability usr) of
                Inr av \<Rightarrow>
                  (Inr (find (\<lambda>a. a_day a = day) av), saveUser (usr\<lparr>u_availability := av\<rparr>) s)
              | Inl e \<Rightarrow> (Inl e, s))))"

text \<open>
  \<open>updateAvailability\<close> stores the array of the body as it is; its entries are
  given here as the schema casts them (\<open>None\<close> when the body has no array; a body
  with a value that the schema cannot cast is not represented). The save is refused when
  a day is not one of the seven names of the schema's enum.
\<close>

definition updateAvailability ::
  "user \<Rightarrow> availabilityDay list option \<Rightarrow> store
     \<Rightarrow> (failure + availabilityDay list) \<times> store" where
  "updateAvailability reqUser availability s =
     (case availability of
        None \<Rightarrow> (Inl (BadRequest ''Please provide valid availability data''), s)
      | Some av \<Rightarrow>
          (case findUserById s (u_id reqUser) of
             None \<Rightarrow> (Inl (NotFound ''User not found''), s)
           | Some usr \<Rightarrow>
               (if list_all (\<lambda>a. a_day a \<in> set validDays) av
                then (Inr av, saveUser (usr\<lparr>u_availability := av\<rparr>) s)
                else (Inl ValidationError, s))))"

section \<open>The availability invariant of section 3\<close>

text \<open>
  A day that is available has at least one slot; a day that is not (its flag is false,
  or \<open>null\<close>) has none.
\<close>

definition dayInvariant :: "availabilityDay \<Rightarrow> bool" where
  "dayInvariant a = (if a_isAvailable a = Some True then a_slots a \<noteq> [] else a_slots a = [])"

fun hasStructured :: "slotInput \<Rightarrow> bool" where
  "hasStructured NotAnObject = False"
| "hasStructured (SlotObject a b) = (a = Structured \<or> b = Structured)"

section \<open>Scenario data\<close>

text \<open>
  Two registered users, documents with the schema defaults, and a clock reading
  2025-03-01 12:00 on the reference runtime.
\<close>

definition alice :: user where
  "alice = \<lparr> u_id = 1, u_name = ''Alice'', u_email = ''a@x.com'', u_availability = [] \<rparr>"

definition bob :: user where
  "bob = \<lparr> u_id = 2, u_name = ''Bob'', u_email = ''b@x.com'', u_availability = [] \<rparr>"

definition mkParticipant :: "oid \<Rightarrow> string \<Rightarrow> pstatus \<Rightarrow> participant" where
  "mkParticipant n e st =
     \<lparr> p_userId = Some n, p_email = e, p_status = st, p_responseAt = None \<rparr>"

definition mkMeeting ::
  "oid \<Rightarrow> oid \<Rightarrow> string \<Rightarrow> string \<Rightarrow> string \<Rightarrow> string \<Rightarrow> participant list \<Rightarrow> meeting" where
  "mkMeeting n host title date startTime endTime ps =
     \<lparr> m_id = n, m_hostId = host, m_title = title, m_description = None, m_date = date,
       m_startTime = startTime, m_endTime = endTime, m_duration = 60,
       m_timezone = ''Asia/Kolkata'', m_meetingLink = None, m_status = ''upcoming'',
       m_isActive = True, m_bannerSettings = ''#3498db'', m_participants = ps \<rparr>"

definition mkBody :: "string \<Rightarrow> string \<Rightarrow> string \<Rightarrow> string \<Rightarrow> meetingBody" where
  "mkBody title date startTime endTime =
     emptyBody\<lparr> mb_title := Some title, mb_date := Some date, mb_startTime := Some startTime,
                mb_endTime := Some endTime, mb_duration := Some 60 \<rparr>"

definition clock0 :: int where
  "clock0 = 1740830400000"

definition store0 :: store where
  "store0 = \<lparr> users = [alice, bob], meetings = [], invitations = [], bookings = [],
              nextId = 100 \<rparr>"

text \<open>Bob hosts a meeting from 09:30 to 10:30 on 2025-03-10.\<close>

definition bobBusy :: store where
  "bobBusy =
     store0\<lparr> meetings :=
               [mkMeeting 50 2 ''Standup'' ''2025-03-10'' ''09:30'' ''10:30''
                  [mkParticipant 2 ''b@x.com'' Accepted]] \<rparr>"

text \<open>
  Alice hosts a meeting in which the host's own participant entry is pending. The state is
  reached through the API: \<open>POST /api/meetings\<close> with that entry in the body's
  \<open>participants\<close> (\<open>Meeting.create(req.body)\<close> stores it, the controller then adds
  the accepted host entry behind it).
\<close>

definition hostPendingBody :: meetingBody where
  "hostPendingBody =
     (mkBody ''Plan'' ''2025-03-10'' ''09:00'' ''10:00'')
       \<lparr> mb_participants := Some [mkParticipant 1 ''a@x.com'' Pending] \<rparr>"

definition hostPendingMeeting :: meeting where
  "hostPendingMeeting =
     mkMeeting 100 1 ''Plan'' ''2025-03-10'' ''09:00'' ''10:00''
       [mkParticipant 1 ''a@x.com'' Pending, mkParticipant 1 ''a@x.com'' Accepted]"

text \<open>Alice invites Bob, who is free, to a meeting from 09:00 to 10:00 on 2025-03-10.\<close>

definition inviteBobBody :: meetingBody where
  "inviteBobBody =
     (mkBody ''Kickoff'' ''2025-03-10'' ''09:00'' ''10:00'')\<lparr> mb_invitees := Some [''b@x.com''] \<rparr>"

definition kickoff :: meeting where
  "kickoff =
     mkMeeting 100 1 ''Kickoff'' ''2025-03-10'' ''09:00'' ''10:00''
       [mkParticipant 2 ''b@x.com'' Pending, mkParticipant 1 ''a@x.com'' Accepted]"

definition afterInvite :: store where
  "afterInvite =
     \<lparr> users = [alice, bob],
       meetings = [kickoff],
       invitations = [\<lparr> i_id = 101, i_meetingId = 100, i_userId = Some 2, i_email = ''b@x.com'',
                         i_status = Pending \<rparr>],
       bookings = [\<lparr> b_userId = 2, upcomingMeetings = [], pendingMeetings = [],
                      canceledMeetings = [], pastMeetings = [], updatedAt = clock0 \<rparr>,
                   \<lparr> b_userId = 1, upcomingMeetings = [(102, meetingData kickoff Accepted)],
                      pendingMeetings = [], canceledMeetings = [], pastMeetings = [],
                      updatedAt = clock0 \<rparr>],
       nextId = 103 \<rparr>"

definition hostPendingStore :: store where
  "hostPendingStore =
     store0\<lparr> meetings := [hostPendingMeeting],
              bookings := [\<lparr> b_userId = 1,
                             upcomingMeetings = [(101, meetingData hostPendingMeeting Pending)],
                             pendingMeetings = [], canceledMeetings = [], pastMeetings = [],
                             updatedAt = clock0 \<rparr>],
              nextId := 102 \<rparr>"

text \<open>
  Alice hosts Design (09:00-10:00) with Bob accepted. In \<open>hostBusy\<close> Alice also hosts
  Retro from 11:00 to 12:00; in \<open>guestBusy\<close> it is Bob who has a meeting then. The
  body moves Design to 11:30-12:30.
\<close>

definition design :: meeting where
  "design =
     mkMeeting 60 1 ''Design'' ''2025-03-10'' ''09:00'' ''10:00''
       [mkParticipant 2 ''b@x.com'' Accepted, mkParticipant 1 ''a@x.com'' Accepted]"

definition retro :: meeting where
  "retro =
     mkMeeting 61 1 ''Retro'' ''2025-03-10'' ''11:00'' ''12:00''
       [mkParticipant 1 ''a@x.com'' Accepted]"

definition dentist :: meeting where
  "dentist =
     mkMeeting 62 2 ''Dentist'' ''2025-03-10'' ''11:00'' ''12:00''
       [mkParticipant 2 ''b@x.com'' Accepted]"

definition hostBusy :: store where
  "hostBusy = store0\<lparr> meetings := [design, retro] \<rparr>"

definition guestBusy :: store where
  "guestBusy = store0\<lparr> meetings := [design, dentist] \<rparr>"

definition moveBody :: meetingBody where
  "moveBody = emptyBody\<lparr> mb_startTime := Some ''11:30'', mb_endTime := Some ''12:30'' \<rparr>"

text \<open>
  The document \<open>Meeting.create\<close> has stored for Alice's Kickoff when the invitees
  are processed, and the store at that moment when Bob is busy.
\<close>

definition kickoffDraft :: meeting where
  "kickoffDraft = mkMeeting 100 1 ''Kickoff'' ''2025-03-10'' ''09:00'' ''10:00'' []"

definition standup :: meeting where
  "standup =
     mkMeeting 50 2 ''Standup'' ''2025-03-10'' ''09:30'' ''10:30''
       [mkParticipant 2 ''b@x.com'' Accepted]"

definition bobBusyDraft :: store where
  "bobBusyDraft = store0\<lparr> meetings := [standup, kickoffDraft], nextId := 101 \<rparr>"

text \<open>
  Alice invites an address nobody registered, and the store that request leaves: the
  meeting as \<open>Meeting.create\<close> stored it, without participants, and the Invitation.
\<close>

definition inviteCarolBody :: meetingBody where
  "inviteCarolBody =
     (mkBody ''Kickoff'' ''2025-03-10'' ''09:00'' ''10:00'')\<lparr> mb_invitees := Some [''c@x.com''] \<rparr>"

definition afterCarol :: store where
  "afterCarol =
     store0\<lparr> meetings := [kickoffDraft],
              invitations := [\<lparr> i_id = 101, i_meetingId = 100, i_userId = None,
                                i_email = ''c@x.com'', i_status = Pending \<rparr>],
              nextId := 102 \<rparr>"

text \<open>Bob holds a pending Invitation whose meeting (id 999) is not in the collection.\<close>

definition orphanInvitation :: invitation where
  "orphanInvitation =
     \<lparr> i_id = 70, i_meetingId = 999, i_userId = Some 2, i_email = ''b@x.com'',
       i_status = Pending \<rparr>"

definition orphanStore :: store where
  "orphanStore = store0\<lparr> invitations := [orphanInvitation] \<rparr>"

text \<open>
  A cancelled, inactive meeting of Alice's with two guests and an Invitation, to be
  duplicated.
\<close>

definition offsite :: meeting where
  "offsite =
     (mkMeeting 80 1 ''Offsite'' ''2025-03-12'' ''14:00'' ''15:00''
        [mkParticipant 2 ''b@x.com'' Rejected, mkParticipant 1 ''a@x.com'' Accepted])
       \<lparr> m_status := ''cancelled'', m_isActive := False \<rparr>"

definition offsiteStore :: store where
  "offsiteStore =
     store0\<lparr> meetings := [offsite],
              invitations := [\<lparr> i_id = 81, i_meetingId = 80, i_userId = Some 2,
                                i_email = ''b@x.com'', i_status = Rejected \<rparr>] \<rparr>"

text \<open>
  An availability array in which Monday is unavailable but has a slot and Tuesday is
  available without any slot; and a week that has an entry for Monday only.
\<close>

definition badWeek :: "availabilityDay list" where
  "badWeek =
     [\<lparr> a_day = ''Monday'', a_isAvailable = Some False,
         a_slots = [\<lparr> s_startTime = ''09:00'', s_endTime = ''17:00'' \<rparr>] \<rparr>,
      \<lparr> a_day = ''Tuesday'', a_isAvailable = Some True, a_slots = [] \<rparr>]"

definition aliceMondays :: user where
  "aliceMondays =
     alice\<lparr> u_availability :=
              [\<lparr> a_day = ''Monday'', a_isAvailable = Some True,
                  a_slots = [\<lparr> s_startTime = ''09:00'', s_endTime = ''17:00'' \<rparr>] \<rparr>] \<rparr>"

definition mondayOnly :: store where
  "mondayOnly = store0\<lparr> users := [aliceMondays, bob] \<rparr>"

section \<open>The classification of section 4.4\<close>

text \<open>
  The precedence as the specification words it, as a decision on the four facts it
  names: the meeting is past, the meeting is cancelled, the participant's status, and
  the user is the host.
\<close>

datatype bucket = Upcoming | PendingBucket | Canceled | Past | Dropped

definition spec_bucket :: "bool \<Rightarrow> bool \<Rightarrow> pstatus \<Rightarrow> bool \<Rightarrow> bucket" where
  "spec_bucket past cancelled status host =
     (if past then Past
      else if cancelled \<or> status = Rejected then Canceled
      else if status = Pending \<and> \<not> host then PendingBucket
      else if status = Accepted \<or> host then Upcoming
      else Dropped)"

text \<open>
  The items a list of meetings contributes to one bucket under that precedence, with
  the host test the code makes (\<open>meeting.hostId.toString() === userId\<close>). A meeting
  whose date or end time gives no valid date contributes to none: the loop gives it up.
\<close>

definition bucketItems ::
  "'n runtime \<Rightarrow> int \<Rightarrow> idref \<Rightarrow> user \<Rightarrow> bucket \<Rightarrow> meeting list \<Rightarrow> meetingItem list" where
  "bucketItems rt now userId usr b ms =
     concat (map (\<lambda>m. if meetingDateOf rt m = None \<or> endDateTimeOf rt m = None then []
                       else
                         (case participantRecord userId usr m of
                            None \<Rightarrow> []
                          | Some pr \<Rightarrow>
                              (if spec_bucket (isPast rt now m) (m_status m = ''cancelled'')
                                    (p_status pr) (toStringEq (m_hostId m) userId) = b
                               then [meetingData m (p_status pr)] else [])))
               ms)"

section \<open>Verification\<close>

subsection \<open>General facts\<close>

lemma find_None_list_ex: "(find P xs = None) = (\<not> list_ex P xs)"
  by (induction xs) auto

lemma find_Some_holds: "find P xs = Some x \<Longrightarrow> P x"
  by (induction xs) (auto split: if_splits)

lemma find_replaceFirst_same:
  "list_ex P xs \<Longrightarrow> P y \<Longrightarrow> find P (replaceFirst P y xs) = Some y"
  by (induction xs) auto

lemma replaceFirst_found_id: "find P xs = Some y \<Longrightarrow> replaceFirst P y xs = xs"
  by (induction xs) (auto split: if_splits)

lemma find_append_new: "\<not> list_ex P xs \<Longrightarrow> P y \<Longrightarrow> find P (xs @ [y]) = Some y"
  by (induction xs) auto

subsection \<open>Evaluating the reference runtime\<close>

lemma at_0900: "dateTime rt0 ''2025-03-10'' ''09:00'' = Some 1741597200000"
  by code_simp

lemma at_0930: "dateTime rt0 ''2025-03-10'' ''09:30'' = Some 1741599000000"
  by code_simp

lemma at_1000: "dateTime rt0 ''2025-03-10'' ''10:00'' = Some 1741600800000"
  by code_simp

lemma at_1030: "dateTime rt0 ''2025-03-10'' ''10:30'' = Some 1741602600000"
  by code_simp

lemma at_1100: "dateTime rt0 ''2025-03-10'' ''11:00'' = Some 1741604400000"
  by code_simp

text \<open>
  Midnight written as 24:00 and a day beyond the end of the month run into the next day;
  a number may be signed and surrounded by blanks.
\<close>

lemma reference_runtime_overflow:
  "isoDateOfString ''2025-03-10T24:00'' = isoDateOfString ''2025-03-11T00:00'' \<and>
   isoDateOfString ''2025-02-30T09:00'' = isoDateOfString ''2025-03-02T09:00'' \<and>
   isoDateOfString ''2025-03-10T24:01'' = None \<and>
   decimalNumber '' 09 '' = Some 9 \<and> decimalNumber ''-3'' = Some (-3) \<and>
   decimalNumber [] = Some 0 \<and> decimalNumber ''9am'' = None"
  by (intro conjI; code_simp)

subsection \<open>The overlap test\<close>

lemma overlapTest_proper:
  "dlt s1 e1 \<Longrightarrow> dlt s2 e2 \<Longrightarrow> overlapTest s1 e1 s2 e2 = (dlt s1 e2 \<and> dlt s2 e1)"
  by (cases s1; cases e1; cases s2; cases e2) (auto simp add: overlapTest_def dgt_def dge_def)

text \<open>
  Claim C1, as amended. For a candidate window and a meeting window that each start
  before they end (as the \<open><\<close> of JavaScript compares the two dates, so all four are
  valid dates), the test of \<open>checkTimeConflict\<close> holds exactly when \<open>s1 < e2\<close> and
  \<open>s2 < e1\<close>; the test gives the same answer when the two windows change roles; and
  the detector answers "no conflict" exactly when no fetched meeting passes the test.
  Windows that are empty or reversed are not covered: on them the three-way test of the
  code is not the half-open overlap.
\<close>

theorem conflict_iff_overlap_of_proper_windows:
  assumes "dlt (dateTime rt date startTime) (dateTime rt date endTime)"
    and "dlt (dateTime rt (m_date m) (m_startTime m)) (dateTime rt (m_date m) (m_endTime m))"
  shows "conflictsWith rt date startTime endTime m
           = (dlt (dateTime rt date startTime) (dateTime rt (m_date m) (m_endTime m)) \<and>
              dlt (dateTime rt (m_date m) (m_startTime m)) (dateTime rt date endTime)) \<and>
         conflictsWith rt (m_date m) (m_startTime m) (m_endTime m)
             (c\<lparr>m_date := date, m_startTime := startTime, m_endTime := endTime\<rparr>)
           = conflictsWith rt date startTime endTime m \<and>
         (checkTimeConflict rt s (Ref r) date startTime endTime ex = Inr None)
           = (\<not> list_ex (conflictsWith rt date startTime endTime)
                  (filter (conflictQuery (idOf r) date ex) (meetings s)))"
proof -
  have a: "conflictsWith rt date startTime endTime m
           = (dlt (dateTime rt date startTime) (dateTime rt (m_date m) (m_endTime m)) \<and>
              dlt (dateTime rt (m_date m) (m_startTime m)) (dateTime rt date endTime))"
    using assms by (simp add: conflictsWith_def overlapTest_proper)
  have b: "conflictsWith rt (m_date m) (m_startTime m) (m_endTime m)
             (c\<lparr>m_date := date, m_startTime := startTime, m_endTime := endTime\<rparr>)
           = (dlt (dateTime rt (m_date m) (m_startTime m)) (dateTime rt date endTime) \<and>
              dlt (dateTime rt date startTime) (dateTime rt (m_date m) (m_endTime m)))"
    using assms by (simp add: conflictsWith_def overlapTest_proper)
  have c: "(checkTimeConflict rt s (Ref r) date startTime endTime ex = Inr None)
           = (\<not> list_ex (conflictsWith rt date startTime endTime)
                  (filter (conflictQuery (idOf r) date ex) (meetings s)))"
    by (simp add: checkTimeConflict_def find_None_list_ex)
  from a b c show ?thesis by blast
qed

text \<open>
  The two scenarios of claim C1 on the reference runtime: 09:00-10:00 against a meeting
  from 10:00 to 11:00 is no conflict, 09:00-10:30 against the same meeting is one.
\<close>

theorem conflict_iff_overlap_witness:
  "dlt (dateTime rt0 ''2025-03-10'' ''09:00'') (dateTime rt0 ''2025-03-10'' ''10:00'') \<and>
   dlt (dateTime rt0 ''2025-03-10'' ''09:00'') (dateTime rt0 ''2025-03-10'' ''10:30'') \<and>
   dlt (dateTime rt0 ''2025-03-10'' ''10:00'') (dateTime rt0 ''2025-03-10'' ''11:00'') \<and>
   conflictsWith rt0 ''2025-03-10'' ''09:00'' ''10:00''
      (mkMeeting 7 1 ''Review'' ''2025-03-10'' ''10:00'' ''11:00''
         [mkParticipant 1 ''a@x.com'' Accepted]) = False \<and>
   conflictsWith rt0 ''2025-03-10'' ''09:00'' ''10:30''
      (mkMeeting 7 1 ''Review'' ''2025-03-10'' ''10:00'' ''11:00''
         [mkParticipant 1 ''a@x.com'' Accepted]) = True"
proof -
  let ?m = "mkMeeting 7 1 ''Review'' ''2025-03-10'' ''10:00'' ''11:00''
         [mkParticipant 1 ''a@x.com'' Accepted]"
  have h1: "dlt (dateTime rt0 ''2025-03-10'' ''09:00'') (dateTime rt0 ''2025-03-10'' ''10:00'')"
    by (simp add: at_0900 at_1000)
  have h2: "dlt (dateTime rt0 ''2025-03-10'' ''09:00'') (dateTime rt0 ''2025-03-10'' ''10:30'')"
    by (simp add: at_0900 at_1030)
  have h3: "dlt (dateTime rt0 (m_date ?m) (m_startTime ?m)) (dateTime rt0 (m_date ?m) (m_endTime ?m))"
    by (simp add: mkMeeting_def at_1000 at_1100)
  from conflict_iff_overlap_of_proper_windows [OF h1 h3]
    conflict_iff_overlap_of_proper_windows [OF h2 h3] h1 h2 h3
  show ?thesis by (simp add: mkMeeting_def at_0900 at_1000 at_1030 at_1100)
qed

text \<open>
  Claim C1 as stated fails on an empty candidate window. Bob hosts 09:30-10:30; the
  candidate starts and ends at 09:30. The detector returns Bob's meeting, although
  \<open>s1 < e2 \<and> s2 < e1\<close> is false (\<open>s2 = e1\<close> = 09:30).
\<close>

theorem zero_length_window_counterexample:
  "checkTimeConflict rt0 bobBusy (Ref (ObjId 2)) ''2025-03-10'' ''09:30'' ''09:30'' None
     = Inr (Some (mkMeeting 50 2 ''Standup'' ''2025-03-10'' ''09:30'' ''10:30''
                    [mkParticipant 2 ''b@x.com'' Accepted])) \<and>
   \<not> (dlt (dateTime rt0 ''2025-03-10'' ''09:30'') (dateTime rt0 ''2025-03-10'' ''10:30'') \<and>
      dlt (dateTime rt0 ''2025-03-10'' ''09:30'') (dateTime rt0 ''2025-03-10'' ''09:30''))"
  by (simp add: checkTimeConflict_def bobBusy_def store0_def conflictQuery_def conflictsWith_def
      overlapTest_def dge_def dgt_def mkMeeting_def mkParticipant_def at_0930 at_1030)

subsection \<open>Unknown and unregistered email\<close>

text \<open>
  When the identity given to \<open>checkTimeConflict\<close> is a string containing \<open>@\<close> and
  no user has that address, lowered, the detector returns "no conflict", not an error.
  No caller in the controllers passes a string: they pass the ObjectId of a user they
  have found.
\<close>

lemma unknown_email_is_no_conflict:
  "isEmail (Text e) \<Longrightarrow> findUserByEmail rt s e = None \<Longrightarrow>
   checkTimeConflict rt s (Text e) date startTime endTime ex = Inr None"
  by (simp add: checkTimeConflict_def)

text \<open>The lookup lowers the address: \<open>B@X.com\<close> is Bob, and the detector finds Bob's meeting.\<close>

lemma email_lookup_is_lowered:
  "findUserByEmail rt0 bobBusy ''B@X.com'' = Some bob \<and>
   checkTimeConflict rt0 bobBusy (Text ''B@X.com'') ''2025-03-10'' ''09:00'' ''10:00'' None
     = Inr (Some standup)"
  by (intro conjI; code_simp)

text \<open>
  Claim C8 at the input where the code departs from it. Nobody is registered as
  \<open>c@x.com\<close>. The detector, asked about that address, answers "no conflict", as the
  claim says. But when Alice creates a meeting with that invitee, the creation is
  blocked all the same: the callback creates the Invitation and pushes a participant
  whose \<open>userId\<close> is \<open>null\<close>, the participant schema requires a \<open>userId\<close>, and the
  final \<open>meeting.save()\<close> is refused. The request fails; what remains is the document
  that \<open>Meeting.create\<close> stored, without any participant, not even the host, and the
  Invitation; no dashboard is rebuilt.
\<close>

theorem unregistered_invitee_blocks_creation:
  "findUserByEmail rt0 store0 ''c@x.com'' = None \<and>
   checkTimeConflict rt0 store0 (Text ''c@x.com'') ''2025-03-10'' ''09:00'' ''10:00'' None
     = Inr None \<and>
   inviteOne rt0 clock0 kickoffDraft ''c@x.com'' (insertMeeting kickoffDraft store0)
     = (Inr ((''c@x.com'', ''invitation sent''),
             [\<lparr> p_userId = None, p_email = ''c@x.com'', p_status = Pending,
                 p_responseAt = None \<rparr>]),
        afterCarol) \<and>
   createMeeting rt0 clock0 alice inviteCarolBody store0 = (Inl ValidationError, afterCarol) \<and>
   map m_participants (meetings afterCarol) = [[]] \<and>
   bookings afterCarol = []"
  by (intro conjI; code_simp)

subsection \<open>The rebuild and the stored projection\<close>

lemma saveBooking_frame:
  "users (saveBooking b s) = users s" "meetings (saveBooking b s) = meetings s"
  "invitations (saveBooking b s) = invitations s" "nextId (saveBooking b s) = nextId s"
  by (simp_all add: saveBooking_def)

lemma filter_replaceFirst_other:
  "\<not> Q y \<Longrightarrow> (\<And>x. P x \<Longrightarrow> \<not> Q x) \<Longrightarrow> filter Q (replaceFirst P y xs) = filter Q xs"
  by (induction xs) auto

lemma saveBooking_others:
  "b_userId b = n \<Longrightarrow>
   filter (\<lambda>x. b_userId x \<noteq> n) (bookings (saveBooking b s)) = filter (\<lambda>x. b_userId x \<noteq> n) (bookings s)"
  by (simp add: saveBooking_def filter_replaceFirst_other)

lemma findBooking_saveBooking: "b_userId b = n \<Longrightarrow> findBooking (saveBooking b s) n = Some b"
  by (simp add: findBooking_def saveBooking_def find_replaceFirst_same find_append_new)

lemma map_snd_withIds: "map snd (withIds n xs) = xs"
  by (induction xs arbitrary: n) simp_all

lemma fillBooking_userId: "b_userId (fillBooking now s n c) = n"
  by (auto simp add: fillBooking_def findBooking_def Let_def split: option.splits dest: find_Some_holds)

lemma fillBooking_plain:
  "plainLists (fillBooking now s n c) = c" "updatedAt (fillBooking now s n c) = now"
  by (simp_all add: fillBooking_def plainLists_def map_snd_withIds Let_def)

text \<open>
  What a rebuild does to the store: it replaces the user's Booking by the one it
  returns, and draws ids; nothing else. When its save fails only ids are drawn.
\<close>

lemma storeBooking_cases:
  "storeBooking now n c s =
     (if validCategories c
      then (Inr (fillBooking now s n c),
            saveBooking (fillBooking now s n c) (s\<lparr>nextId := nextId s + itemCount c\<rparr>))
      else (Inl ValidationError, s\<lparr>nextId := nextId s + itemCount c\<rparr>))"
  by (simp add: storeBooking_def Let_def)

lemma storeBooking_frame:
  "users (snd (storeBooking now n c s)) = users s"
  "meetings (snd (storeBooking now n c s)) = meetings s"
  "invitations (snd (storeBooking now n c s)) = invitations s"
  "filter (\<lambda>b. b_userId b \<noteq> n) (bookings (snd (storeBooking now n c s)))
     = filter (\<lambda>b. b_userId b \<noteq> n) (bookings s)"
  by (simp_all add: storeBooking_cases saveBooking_frame saveBooking_others fillBooking_userId)

lemma updateUserBookings_cases:
  "updateUserBookings rt now userId s =
     (case findUserById s (idOf userId) of
        None \<Rightarrow> (Inr None, s)
      | Some usr \<Rightarrow>
          (let c = categorize rt now userId usr (filter (involves (idOf userId)) (meetings s))
                     noCategories
           in (map_sum id Some (fst (storeBooking now (idOf userId) c s)),
               snd (storeBooking now (idOf userId) c s))))"
  by (simp add: updateUserBookings_def Let_def storeBooking_cases split: option.splits)

lemma updateUserBookings_frame:
  "users (snd (updateUserBookings rt now userId s)) = users s"
  "meetings (snd (updateUserBookings rt now userId s)) = meetings s"
  "invitations (snd (updateUserBookings rt now userId s)) = invitations s"
  "filter (\<lambda>b. b_userId b \<noteq> idOf userId) (bookings (snd (updateUserBookings rt now userId s)))
     = filter (\<lambda>b. b_userId b \<noteq> idOf userId) (bookings s)"
  by (simp_all add: updateUserBookings_cases Let_def storeBooking_frame split: option.splits)

text \<open>
  The items of a meeting that passes the Meeting validators pass the item validators: on
  a collection of such meetings the save of a rebuild does not fail.
\<close>

lemma valid_meeting_gives_valid_item: "validMeeting m \<Longrightarrow> validItem (meetingData m st)"
  by (simp add: validMeeting_def validItem_def meetingData_def)

text \<open>
  Claim C7, amended. With the meetings, the users and the clock fixed, running the
  rebuild a second time right after the first gives the same outcome: the same failure,
  or a Booking for the same user with the same \<open>updatedAt\<close> stamp and the same four
  lists of items, in the same order and equal in every field of the item schema. The
  \<open>_id\<close>s of the items are not the same: each rebuild casts its plain items to new
  subdocuments. A rebuild changes nothing but the Booking document of its user: the
  users, the meetings and the invitations are untouched, and so are the Booking
  documents of the other users; when it returns a Booking, that Booking is the one
  stored for the user.
\<close>

theorem rebuild_is_idempotent_up_to_item_ids:
  "map_sum id (map_option (\<lambda>b. (b_userId b, plainLists b, updatedAt b)))
       (fst (updateUserBookings rt now userId (snd (updateUserBookings rt now userId s))))
     = map_sum id (map_option (\<lambda>b. (b_userId b, plainLists b, updatedAt b)))
         (fst (updateUserBookings rt now userId s)) \<and>
   users (snd (updateUserBookings rt now userId s)) = users s \<and>
   meetings (snd (updateUserBookings rt now userId s)) = meetings s \<and>
   invitations (snd (updateUserBookings rt now userId s)) = invitations s \<and>
   filter (\<lambda>b. b_userId b \<noteq> idOf userId) (bookings (snd (updateUserBookings rt now userId s)))
     = filter (\<lambda>b. b_userId b \<noteq> idOf userId) (bookings s) \<and>
   (case fst (updateUserBookings rt now userId s) of
      Inr (Some b) \<Rightarrow> findBooking (snd (updateUserBookings rt now userId s)) (idOf userId) = Some b
    | Inr None \<Rightarrow> snd (updateUserBookings rt now userId s) = s
    | Inl e \<Rightarrow> bookings (snd (updateUserBookings rt now userId s)) = bookings s)"
proof -
  define s' where "s' = snd (updateUserBookings rt now userId s)"
  have frame: "users s' = users s" "meetings s' = meetings s"
    by (simp_all add: s'_def updateUserBookings_frame)
  have usr: "findUserById s' (idOf userId) = findUserById s (idOf userId)"
    by (simp add: findUserById_def frame)
  have again:
    "map_sum id (map_option (\<lambda>b. (b_userId b, plainLists b, updatedAt b)))
         (fst (updateUserBookings rt now userId s'))
       = map_sum id (map_option (\<lambda>b. (b_userId b, plainLists b, updatedAt b)))
           (fst (updateUserBookings rt now userId s))"
    by (simp add: updateUserBookings_cases [of rt now userId s']
        updateUserBookings_cases [of rt now userId s] usr frame Let_def storeBooking_cases
        fillBooking_userId fillBooking_plain split: option.splits)
  have stored:
    "(case fst (updateUserBookings rt now userId s) of
        Inr (Some b) \<Rightarrow> findBooking (snd (updateUserBookings rt now userId s)) (idOf userId) = Some b
      | Inr None \<Rightarrow> snd (updateUserBookings rt now userId s) = s
      | Inl e \<Rightarrow> bookings (snd (updateUserBookings rt now userId s)) = bookings s)"
    by (simp add: updateUserBookings_cases Let_def storeBooking_cases findBooking_saveBooking
        fillBooking_userId split: option.splits)
  from again stored show ?thesis
    unfolding s'_def by (simp add: updateUserBookings_frame)
qed

text \<open>
  Claim C7 as worded, at an input where it fails. After Alice has created Kickoff, a
  rebuild of Alice's Booking stores one upcoming item under the id 103; the rebuild that
  follows at once, with the same meetings and the same clock, stores the same item under
  the id 104. The two stored lists are not identical.
\<close>

theorem rebuild_renews_item_ids_counterexample:
  "fst (updateUserBookings rt0 clock0 (StrId 1) afterInvite)
     = Inr (Some \<lparr> b_userId = 1, upcomingMeetings = [(103, meetingData kickoff Accepted)],
                   pendingMeetings = [], canceledMeetings = [], pastMeetings = [],
                   updatedAt = clock0 \<rparr>) \<and>
   fst (updateUserBookings rt0 clock0 (StrId 1)
          (snd (updateUserBookings rt0 clock0 (StrId 1) afterInvite)))
     = Inr (Some \<lparr> b_userId = 1, upcomingMeetings = [(104, meetingData kickoff Accepted)],
                   pendingMeetings = [], canceledMeetings = [], pastMeetings = [],
                   updatedAt = clock0 \<rparr>) \<and>
   map_option upcomingMeetings
       (findBooking (snd (updateUserBookings rt0 clock0 (StrId 1)
                            (snd (updateUserBookings rt0 clock0 (StrId 1) afterInvite)))) 1)
     \<noteq> map_option upcomingMeetings
         (findBooking (snd (updateUserBookings rt0 clock0 (StrId 1) afterInvite)) 1)"
  by (intro conjI; code_simp)

subsection \<open>Classification\<close>

text \<open>
  The loop of \<open>updateUserBookings\<close> fills each list with the items that the
  precedence of section 4.4 sends there, in the order of the meetings, when "the user is
  host" is read as the test the code makes, and a meeting whose date or end time gives no
  valid date is left out.
\<close>

lemma categorize_follows_precedence:
  "categorize rt now userId usr ms acc =
     \<lparr> upcomingList = upcomingList acc @ bucketItems rt now userId usr Upcoming ms,
       pendingList = pendingList acc @ bucketItems rt now userId usr PendingBucket ms,
       canceledList = canceledList acc @ bucketItems rt now userId usr Canceled ms,
       pastList = pastList acc @ bucketItems rt now userId usr Past ms \<rparr>"
proof (induction ms arbitrary: acc)
  case Nil
  then show ?case by (simp add: bucketItems_def)
next
  case (Cons m ms)
  show ?case
  proof (cases "meetingDateOf rt m = None \<or> endDateTimeOf rt m = None")
    case True
    then show ?thesis using Cons.IH [of acc] by (auto simp add: bucketItems_def)
  next
    case False
    show ?thesis
    proof (cases "participantRecord userId usr m")
      case None
      then show ?thesis using False Cons.IH [of acc] by (simp add: bucketItems_def)
    next
      case (Some pr)
      then show ?thesis
        using False
        by (cases "p_status pr") (simp_all add: Cons.IH bucketItems_def spec_bucket_def Let_def)
    qed
  qed
qed

text \<open>
  A meeting whose stored date is not a calendar date reaches no list: the log line of the
  loop throws on it.
\<close>

lemma unreadable_date_is_dropped:
  "meetingDateOf rt m = None \<Longrightarrow>
   categorize rt now userId usr [m] noCategories = noCategories"
  by simp

text \<open>
  Claim C3 at the input where the code departs from it. Alice hosts a meeting that is
  not past and not cancelled, and Alice's participant entry is pending (the state
  \<open>POST /api/meetings\<close> reaches from \<open>hostPendingBody\<close>). Rule (3) does not apply to
  a host, so the claim sends the meeting to upcoming, and so does the rebuild called with
  the string \<open>req.user.id\<close>. Called with an ObjectId, as \<open>updateMeeting\<close> does for
  every participant, the rebuild compares \<open>meeting.hostId.toString()\<close> with an object,
  takes Alice for a guest and files Alice's own meeting under pending; after a
  \<open>PUT /api/meetings/100\<close> that only changes the description, that is what the stored
  dashboard shows.
\<close>

theorem host_entry_lands_in_pending:
  "createMeeting rt0 clock0 alice hostPendingBody store0
     = (Inr (hostPendingMeeting, None), hostPendingStore) \<and>
   spec_bucket (isPast rt0 clock0 hostPendingMeeting) (m_status hostPendingMeeting = ''cancelled'')
     Pending (m_hostId hostPendingMeeting = u_id alice) = Upcoming \<and>
   fst (updateUserBookings rt0 clock0 (StrId 1) hostPendingStore)
     = Inr (Some \<lparr> b_userId = 1,
                   upcomingMeetings = [(102, meetingData hostPendingMeeting Pending)],
                   pendingMeetings = [], canceledMeetings = [], pastMeetings = [],
                   updatedAt = clock0 \<rparr>) \<and>
   fst (updateUserBookings rt0 clock0 (ObjId 1) hostPendingStore)
     = Inr (Some \<lparr> b_userId = 1, upcomingMeetings = [],
                   pendingMeetings = [(102, meetingData hostPendingMeeting Pending)],
                   canceledMeetings = [], pastMeetings = [], updatedAt = clock0 \<rparr>) \<and>
   fst (updateMeeting rt0 clock0 alice 100 (emptyBody\<lparr>mb_description := Some ''agenda''\<rparr>)
          hostPendingStore)
     = Inr (hostPendingMeeting\<lparr>m_description := Some ''agenda''\<rparr>) \<and>
   findBooking
       (snd (updateMeeting rt0 clock0 alice 100 (emptyBody\<lparr>mb_description := Some ''agenda''\<rparr>)
               hostPendingStore)) 1
     = Some \<lparr> b_userId = 1, upcomingMeetings = [],
              pendingMeetings =
                [(103, meetingData (hostPendingMeeting\<lparr>m_description := Some ''agenda''\<rparr>)
                         Pending)],
              canceledMeetings = [], pastMeetings = [], updatedAt = clock0 \<rparr>"
  by (intro conjI; code_simp)

subsection \<open>Invitations and the rebuild\<close>

lemma rebuild_reads_no_invitation:
  "fst (updateUserBookings rt now userId (s\<lparr>invitations := ivs\<rparr>))
     = fst (updateUserBookings rt now userId s)"
  by (simp add: updateUserBookings_cases storeBooking_cases Let_def findUserById_def
      fillBooking_def findBooking_def split: option.splits)

text \<open>
  Claim C4 at the input where the code departs from it. Alice creates a meeting and
  invites Bob, a registered user who is free; the store afterwards is \<open>afterInvite\<close>.
  Bob has one pending Invitation (id 101) and its meeting is not past. The claim gives
  Bob's pending list two entries: one that carries the Invitation id, and the one derived
  from Bob's participant entry. The Booking that \<open>createMeeting\<close> rebuilt for Bob has
  no pending entry at all; a later rebuild by \<open>updateUserBookings\<close> lists the meeting
  once, from that participant entry; \<open>refreshBookings\<close> lists it once, from the
  Invitation, and has no participant-derived pending entry. No stored entry carries an
  Invitation id: the item schema has no such path, so the key that
  \<open>refreshBookings\<close> sets is dropped, and the two entries are equal. Whatever the
  Invitation collection holds, \<open>updateUserBookings\<close> returns the same Booking.
\<close>

theorem rebuild_ignores_pending_invitations:
  "fst (updateUserBookings rt now userId (s\<lparr>invitations := ivs\<rparr>))
     = fst (updateUserBookings rt now userId s) \<and>
   createMeeting rt0 clock0 alice inviteBobBody store0
     = (Inr (kickoff, Some [(''b@x.com'', ''invitation sent'')]), afterInvite) \<and>
   pendingInvitationsFor rt0 afterInvite bob
     = [\<lparr> i_id = 101, i_meetingId = 100, i_userId = Some 2, i_email = ''b@x.com'',
           i_status = Pending \<rparr>] \<and>
   isPast rt0 clock0 kickoff = False \<and>
   map_option pendingMeetings (findBooking afterInvite 2) = Some [] \<and>
   map_sum id (map_option pendingMeetings)
       (fst (updateUserBookings rt0 clock0 (ObjId 2) afterInvite))
     = Inr (Some [(103, meetingData kickoff Pending)]) \<and>
   map_sum id pendingMeetings (fst (refreshBookings rt0 clock0 bob afterInvite))
     = Inr [(103, meetingData kickoff Pending)]"
proof -
  have closed:
    "createMeeting rt0 clock0 alice inviteBobBody store0
       = (Inr (kickoff, Some [(''b@x.com'', ''invitation sent'')]), afterInvite) \<and>
     pendingInvitationsFor rt0 afterInvite bob
       = [\<lparr> i_id = 101, i_meetingId = 100, i_userId = Some 2, i_email = ''b@x.com'',
             i_status = Pending \<rparr>] \<and>
     isPast rt0 clock0 kickoff = False \<and>
     map_option pendingMeetings (findBooking afterInvite 2) = Some [] \<and>
     map_sum id (map_option pendingMeetings)
         (fst (updateUserBookings rt0 clock0 (ObjId 2) afterInvite))
       = Inr (Some [(103, meetingData kickoff Pending)]) \<and>
     map_sum id pendingMeetings (fst (refreshBookings rt0 clock0 bob afterInvite))
       = Inr [(103, meetingData kickoff Pending)]"
    by (intro conjI; code_simp)
  from rebuild_reads_no_invitation [of rt now userId ivs s] closed show ?thesis by blast
qed

subsection \<open>Invitees with a conflict\<close>

text \<open>
  Claim C5, as amended. When the invitee's email belongs to a registered user and the
  conflict check finds a meeting for that user, the callback returns the result
  \<open>conflict detected\<close> for that invitee and does nothing else: no Invitation is
  created, no participant is pushed, no Booking is rebuilt, the store is unchanged. The
  remaining invitees are processed as usual, so the creation of the meeting goes on.
\<close>

theorem conflicting_invitee_is_skipped:
  assumes "findUserByEmail rt s email = Some u"
    and "checkTimeConflict rt s (Ref (ObjId (u_id u))) (m_date meeting) (m_startTime meeting)
           (m_endTime meeting) None = Inr (Some c)"
  shows "inviteOne rt now meeting email s = (Inr ((email, ''conflict detected''), []), s) \<and>
         inviteEach rt now meeting (email # rest) s =
           (case inviteEach rt now meeting rest s of
              (Inl e, s2) \<Rightarrow> (Inl e, s2)
            | (Inr (results, ps), s2) \<Rightarrow> (Inr ((email, ''conflict detected'') # results, ps), s2))"
proof -
  have one: "inviteOne rt now meeting email s = (Inr ((email, ''conflict detected''), []), s)"
    using assms by (simp add: inviteOne_def Let_def)
  then show ?thesis by (simp split: prod.splits sum.splits)
qed

text \<open>
  The amended claim C5 on Bob, who hosts Standup from 09:30 to 10:30, invited to Alice's
  Kickoff from 09:00 to 10:00.
\<close>

theorem conflicting_invitee_witness:
  "findUserByEmail rt0 bobBusyDraft ''b@x.com'' = Some bob \<and>
   checkTimeConflict rt0 bobBusyDraft (Ref (ObjId (u_id bob))) (m_date kickoffDraft)
       (m_startTime kickoffDraft) (m_endTime kickoffDraft) None = Inr (Some standup) \<and>
   inviteOne rt0 clock0 kickoffDraft ''b@x.com'' bobBusyDraft
     = (Inr ((''b@x.com'', ''conflict detected''), []), bobBusyDraft) \<and>
   inviteEach rt0 clock0 kickoffDraft [''b@x.com''] bobBusyDraft
     = (Inr ([(''b@x.com'', ''conflict detected'')], []), bobBusyDraft)"
proof -
  have h1: "findUserByEmail rt0 bobBusyDraft ''b@x.com'' = Some bob" by code_simp
  have h2: "checkTimeConflict rt0 bobBusyDraft (Ref (ObjId (u_id bob))) (m_date kickoffDraft)
       (m_startTime kickoffDraft) (m_endTime kickoffDraft) None = Inr (Some standup)"
    by code_simp
  from conflicting_invitee_is_skipped [OF h1 h2, of clock0 "[]"] h1 h2
  show ?thesis by simp
qed

text \<open>
  Claim C5 as stated fails: in that scenario \<open>createMeeting\<close> answers with the meeting
  and the result \<open>conflict detected\<close> for Bob, the only participant is the host, and
  the Invitation collection is still empty.
\<close>

theorem conflict_blocks_invitation_counterexample:
  "createMeeting rt0 clock0 alice inviteBobBody bobBusy
     = (Inr (mkMeeting 100 1 ''Kickoff'' ''2025-03-10'' ''09:00'' ''10:00''
               [mkParticipant 1 ''a@x.com'' Accepted],
             Some [(''b@x.com'', ''conflict detected'')]),
        bobBusy\<lparr> meetings :=
                   [standup,
                    mkMeeting 100 1 ''Kickoff'' ''2025-03-10'' ''09:00'' ''10:00''
                      [mkParticipant 1 ''a@x.com'' Accepted]],
                 bookings :=
                   [\<lparr> b_userId = 1,
                       upcomingMeetings = [(101, meetingData kickoffDraft Accepted)],
                       pendingMeetings = [], canceledMeetings = [], pastMeetings = [],
                       updatedAt = clock0 \<rparr>],
                 nextId := 102 \<rparr>) \<and>
   invitations (snd (createMeeting rt0 clock0 alice inviteBobBody bobBusy)) = []"
  by (intro conjI; code_simp)

subsection \<open>The time-change guard\<close>

lemma checkTimeConflict_Ref:
  "checkTimeConflict rt s (Ref r) date startTime endTime ex =
     Inr (find (conflictsWith rt date startTime endTime)
            (filter (conflictQuery (idOf r) date ex) (meetings s)))"
  by (simp add: checkTimeConflict_def)

lemma participantConflicts_accepted:
  "participantConflicts rt s date startTime endTime mid ps
     = Inr (acceptedConflicts rt s date startTime endTime mid ps)"
proof (induction ps)
  case Nil
  then show ?case by (simp add: acceptedConflicts_def)
next
  case (Cons p ps)
  then show ?case
    by (cases "p_userId p")
       (auto simp add: acceptedConflicts_def checkTimeConflict_Ref split: option.splits)
qed

text \<open>
  Claim C2, as amended. When the host's request changes the date, the start or the end
  of a meeting, the detector is run against the new time, excluding the meeting itself,
  for every participant that is accepted and has a \<open>userId\<close>, the host's own entry
  included. If the detector finds a meeting for at least one of them, the update is
  rejected with the list of those participants and the store is exactly what it was:
  nothing is applied for anybody.
\<close>

theorem time_change_with_conflict_is_rejected:
  assumes "findMeetingById s mid = Some meeting"
    and "m_hostId meeting = u_id reqUser"
    and "timeChanged body meeting"
    and "acceptedConflicts rt s (orElse (mb_date body) (m_date meeting))
           (orElse (mb_startTime body) (m_startTime meeting))
           (orElse (mb_endTime body) (m_endTime meeting))
           (m_id meeting) (m_participants meeting) \<noteq> []"
  shows "updateMeeting rt now reqUser mid body s =
           (Inl (Conflict (acceptedConflicts rt s (orElse (mb_date body) (m_date meeting))
                   (orElse (mb_startTime body) (m_startTime meeting))
                   (orElse (mb_endTime body) (m_endTime meeting))
                   (m_id meeting) (m_participants meeting))), s)"
  using assms
  by (simp add: updateMeeting_def participantConflicts_accepted split: list.splits)

text \<open>
  The amended claim C2 when the guest is busy: Alice moves Design to 11:30-12:30, Bob has
  the dentist from 11:00 to 12:00; the update is rejected with Bob listed and the store
  is unchanged.
\<close>

theorem time_change_witness:
  "findMeetingById guestBusy 60 = Some design \<and> m_hostId design = u_id alice \<and>
   timeChanged moveBody design \<and>
   updateMeeting rt0 clock0 alice 60 moveBody guestBusy
     = (Inl (Conflict [(2, ''b@x.com'')]), guestBusy)"
proof -
  have h1: "findMeetingById guestBusy 60 = Some design" by code_simp
  have h2: "m_hostId design = u_id alice" by code_simp
  have h3: "timeChanged moveBody design" by code_simp
  have ev: "acceptedConflicts rt0 guestBusy (orElse (mb_date moveBody) (m_date design))
           (orElse (mb_startTime moveBody) (m_startTime design))
           (orElse (mb_endTime moveBody) (m_endTime design))
           (m_id design) (m_participants design) = [(2, ''b@x.com'')]"
    by code_simp
  have h4: "acceptedConflicts rt0 guestBusy (orElse (mb_date moveBody) (m_date design))
           (orElse (mb_startTime moveBody) (m_startTime design))
           (orElse (mb_endTime moveBody) (m_endTime design))
           (m_id design) (m_participants design) \<noteq> []"
    by (simp add: ev)
  from time_change_with_conflict_is_rejected [OF h1 h2 h3 h4, of clock0] h1 h2 h3 ev
  show ?thesis by simp
qed

text \<open>
  Claim C2 as stated fails on "host excluded". Only Alice, the host, is busy at the new
  time (Alice hosts Retro from 11:00 to 12:00); a check of the accepted participants other
  than the host finds nothing, but the code rejects the update and lists the host.
\<close>

theorem host_is_checked_counterexample:
  "updateMeeting rt0 clock0 alice 60 moveBody hostBusy
     = (Inl (Conflict [(1, ''a@x.com'')]), hostBusy) \<and>
   spec_participantConflicts rt0 hostBusy ''2025-03-10'' ''11:30'' ''12:30'' design = Inr []"
  by (intro conjI; code_simp)

subsection \<open>A response to an orphan invitation\<close>

lemma saveInvitation_frame:
  "users (saveInvitation iv s) = users s" "meetings (saveInvitation iv s) = meetings s"
  "bookings (saveInvitation iv s) = bookings s" "nextId (saveInvitation iv s) = nextId s"
  by (simp_all add: saveInvitation_def)

lemma findInvitation_saved:
  "findInvitationById s n = Some iv \<Longrightarrow> i_id iv' = i_id iv \<Longrightarrow>
   findInvitationById (saveInvitation iv' s) n = Some iv'"
proof -
  assume a: "findInvitationById s n = Some iv" and b: "i_id iv' = i_id iv"
  from a have idn: "i_id iv = n" by (auto simp add: findInvitationById_def dest: find_Some_holds)
  from a have ex: "list_ex (\<lambda>x. i_id x = n) (invitations s)"
    using find_None_list_ex [of "\<lambda>x. i_id x = n" "invitations s"]
    by (simp add: findInvitationById_def)
  show ?thesis
    using find_replaceFirst_same [of "\<lambda>x. i_id x = n" "invitations s" iv'] ex idn b
    by (simp add: findInvitationById_def saveInvitation_def)
qed

text \<open>
  Claim C9. A valid response (\<open>accepted\<close> or \<open>rejected\<close>) by the owner of an
  Invitation whose \<open>meetingId\<close> matches no meeting is answered with NotFound
  (\<open>Meeting not found\<close>), and the store that remains holds the Invitation with the
  requested status: it was saved before the meeting was looked up. Meetings and
  bookings are untouched.
\<close>

theorem response_is_saved_before_meeting_lookup:
  assumes "status = ''accepted'' \<or> status = ''rejected''"
    and "findInvitationById s invitationId = Some iv"
    and "i_userId iv = Some (u_id reqUser) \<or> i_email iv = u_email reqUser"
    and "findMeetingById s (i_meetingId iv) = None"
  shows "respondToInvitation rt now reqUser invitationId status s
           = (Inl (NotFound ''Meeting not found''),
              saveInvitation (iv\<lparr>i_status := (if status = ''accepted'' then Accepted else Rejected)\<rparr>) s) \<and>
         findInvitationById
             (snd (respondToInvitation rt now reqUser invitationId status s)) invitationId
           = Some (iv\<lparr>i_status := (if status = ''accepted'' then Accepted else Rejected)\<rparr>) \<and>
         meetings (snd (respondToInvitation rt now reqUser invitationId status s)) = meetings s \<and>
         bookings (snd (respondToInvitation rt now reqUser invitationId status s)) = bookings s"
proof -
  define iv' where "iv' = iv\<lparr>i_status := (if status = ''accepted'' then Accepted else Rejected)\<rparr>"
  have look: "lookupInvitation rt reqUser invitationId s = Some (iv, s)"
    using assms(2) by (simp add: lookupInvitation_def)
  have owner: "\<not> ((case i_userId iv of Some n \<Rightarrow> n \<noteq> u_id reqUser | None \<Rightarrow> False) \<and>
                   i_email iv \<noteq> u_email reqUser)"
    using assms(3) by (auto split: option.splits)
  have nomeet: "findMeetingById (saveInvitation iv' s) (i_meetingId iv') = None"
    using assms(4) by (simp add: findMeetingById_def saveInvitation_frame iv'_def)
  have res: "respondToInvitation rt now reqUser invitationId status s
           = (Inl (NotFound ''Meeting not found''), saveInvitation iv' s)"
    using assms(1) look owner nomeet
    by (auto simp add: respondToInvitation_def Let_def iv'_def)
  have saved: "findInvitationById (saveInvitation iv' s) invitationId = Some iv'"
    using findInvitation_saved [OF assms(2), of iv'] by (simp add: iv'_def)
  from res saved show ?thesis by (simp add: iv'_def saveInvitation_frame)
qed

text \<open>
  Claim C9 on Bob accepting the orphan Invitation 70: the answer is NotFound and the
  stored Invitation is now accepted.
\<close>

theorem response_is_saved_witness:
  "findInvitationById orphanStore 70 = Some orphanInvitation \<and>
   findMeetingById orphanStore (i_meetingId orphanInvitation) = None \<and>
   respondToInvitation rt0 clock0 bob 70 ''accepted'' orphanStore
     = (Inl (NotFound ''Meeting not found''),
        orphanStore\<lparr> invitations := [orphanInvitation\<lparr>i_status := Accepted\<rparr>] \<rparr>)"
proof -
  have h1: "''accepted'' = ''accepted'' \<or> ''accepted'' = ''rejected''" by simp
  have h2: "findInvitationById orphanStore 70 = Some orphanInvitation" by code_simp
  have h3: "i_userId orphanInvitation = Some (u_id bob) \<or> i_email orphanInvitation = u_email bob"
    by code_simp
  have h4: "findMeetingById orphanStore (i_meetingId orphanInvitation) = None" by code_simp
  have sv: "saveInvitation (orphanInvitation\<lparr>i_status := Accepted\<rparr>) orphanStore
      = orphanStore\<lparr> invitations := [orphanInvitation\<lparr>i_status := Accepted\<rparr>] \<rparr>"
    by code_simp
  from response_is_saved_before_meeting_lookup [OF h1 h2 h3 h4, of rt0 clock0] h2 h4 sv
  show ?thesis by simp
qed

subsection \<open>Duplicating a meeting\<close>





text \<open>
  A body whose title is a blank is taken (it is truthy), trimmed to nothing and refused;
  the store is as it was.
\<close>

lemma blank_title_is_refused:
  "duplicateMeeting rt0 alice 80 (emptyBody\<lparr>mb_title := Some '' ''\<rparr>) offsiteStore
     = (Inl ValidationError, offsiteStore)"
  by code_simp

subsection \<open>Availability\<close>

lemma validatedSlots_falsy: "\<not> jsTruthy isAvailable \<Longrightarrow> validatedSlots isAvailable slots = []"
  by (simp add: validatedSlots_def split: option.splits)

lemma validatedSlots_no_array: "validatedSlots isAvailable None = []"
  by (simp add: validatedSlots_def)

lemma validatedSlots_nonempty:
  "jsTruthy isAvailable \<Longrightarrow> validatedSlots isAvailable (Some xs) \<noteq> []"
  by (simp add: validatedSlots_def Let_def)

lemma validatedSlots_all_day:
  "jsTruthy isAvailable \<Longrightarrow> filter isSlotObject xs = [] \<Longrightarrow>
   validatedSlots isAvailable (Some xs) = [(Str [], Str [])]"
  by (simp add: validatedSlots_def)

lemma those_length: "those xs = Some ys \<Longrightarrow> length ys = length xs"
  by (induction xs arbitrary: ys) (auto split: option.splits)

lemma those_None: "those xs = None \<Longrightarrow> None \<in> set xs"
  by (induction xs) (auto split: option.splits)

lemma castSlots_empty_iff: "castSlots vs = Some sl \<Longrightarrow> (sl = []) = (vs = [])"
  using those_length [of "map castSlot vs" sl] by (auto simp add: castSlots_def)

lemma castSlots_all_day: "castSlots [(Str [], Str [])] = Some [allDaySlot]"
  by (simp add: castSlots_def allDaySlot_def)

lemma castSlot_normalize: "castSlot (normalizeSlot x) = None \<Longrightarrow> hasStructured x"
proof (cases x)
  case NotAnObject
  assume "castSlot (normalizeSlot x) = None"
  with NotAnObject show ?thesis by simp
next
  case (SlotObject a b)
  assume "castSlot (normalizeSlot x) = None"
  with SlotObject show ?thesis by (cases a; cases b) simp_all
qed

lemma castSlots_fails:
  assumes "castSlots (validatedSlots isAvailable slots) = None"
  shows "jsTruthy isAvailable \<and> (case slots of Some xs \<Rightarrow> list_ex hasStructured xs | None \<Rightarrow> False)"
proof (cases slots)
  case None
  with assms show ?thesis by (simp add: validatedSlots_def castSlots_def)
next
  case (Some xs)
  show ?thesis
  proof (cases "jsTruthy isAvailable")
    case False
    with assms Some show ?thesis by (simp add: validatedSlots_def castSlots_def)
  next
    case True
    have "None \<in> set (map castSlot (validatedSlots isAvailable slots))"
      using assms those_None [of "map castSlot (validatedSlots isAvailable slots)"]
      by (simp add: castSlots_def)
    then obtain p where p: "p \<in> set (validatedSlots isAvailable slots)" "castSlot p = None"
      by auto
    have "p \<in> set (map normalizeSlot (filter isSlotObject xs))"
      using p True Some by (auto simp add: validatedSlots_def Let_def split: if_splits)
    then obtain x where "x \<in> set xs" "p = normalizeSlot x" by auto
    with p(2) have "x \<in> set xs \<and> hasStructured x" using castSlot_normalize by simp
    then have "list_ex hasStructured xs" by (auto simp add: list_ex_iff)
    with True Some show ?thesis by simp
  qed
qed

lemma list_all_updateFirst:
  "list_all Q xs \<Longrightarrow> (\<And>x. P x \<Longrightarrow> Q x \<Longrightarrow> Q (f x)) \<Longrightarrow> list_all Q (updateFirst P f xs)"
  by (induction xs) auto

lemma find_updateFirst:
  "(\<And>x. P x \<Longrightarrow> P (f x)) \<Longrightarrow> find P (updateFirst P f xs) = map_option f (find P xs)"
  by (induction xs) auto

lemma find_ex_Some: "list_ex P xs \<Longrightarrow> \<exists>x. find P xs = Some x \<and> P x"
  by (induction xs) auto

text \<open>
  The per-day update when the controller and the schema read \<open>isAvailable\<close> as the
  same boolean \<open>b\<close>: the save fails only on a bound that is not a text, and otherwise
  the entries keep the invariant and the entry of the day is as the request asks.
\<close>

lemma updateDay_fails:
  assumes "castBoolean isAvailable = Inr (Some b)"
    and "updateDay day isAvailable (validatedSlots isAvailable slots) av = Inl e"
  shows "e = ValidationError \<and> jsTruthy isAvailable \<and>
         (case slots of Some xs \<Rightarrow> list_ex hasStructured xs | None \<Rightarrow> False)"
proof -
  have none: "castSlots (validatedSlots isAvailable slots) = None"
  proof (cases "castSlots (validatedSlots isAvailable slots)")
    case None
    then show ?thesis .
  next
    case (Some sl)
    have "castSlots [] = Some []" by (simp add: castSlots_def)
    with Some assms show ?thesis
      by (auto simp add: updateDay_def split: if_splits)
  qed
  have "e = ValidationError"
    using assms(2) by (auto simp add: updateDay_def split: if_splits sum.splits option.splits)
  with castSlots_fails [OF none] show ?thesis by simp
qed

lemma updateDay_keeps:
  assumes "castBoolean isAvailable = Inr (Some b)" and "jsTruthy isAvailable = b"
    and "list_all dayInvariant av"
    and "list_ex (\<lambda>a. a_day a = day) av \<or> \<not> b \<or> slots \<noteq> None"
    and "updateDay day isAvailable (validatedSlots isAvailable slots) av = Inr av'"
  shows "list_all dayInvariant av' \<and>
         (\<exists>e. find (\<lambda>a. a_day a = day) av' = Some e \<and> a_isAvailable e = Some b \<and>
              (if b then a_slots e \<noteq> [] else a_slots e = []) \<and>
              (b \<longrightarrow> (\<forall>xs. slots = Some xs \<longrightarrow> filter isSlotObject xs = []
                        \<longrightarrow> a_slots e = [allDaySlot])))"
proof -
  define vs where "vs = validatedSlots isAvailable slots"
  have def: "isAvailable \<noteq> JUndefined" using assms(1) by auto
  have nf: "isAvailable = JBool False \<Longrightarrow> \<not> b" using assms(2) by auto
  have vs_falsy: "\<not> b \<Longrightarrow> vs = []"
    using assms(2) by (simp add: vs_def validatedSlots_falsy)
  have "\<exists>sl. castSlots vs = Some sl"
  proof (cases b)
    case False
    then show ?thesis using vs_falsy by (simp add: castSlots_def)
  next
    case True
    with nf have "isAvailable \<noteq> JBool False" by auto
    then show ?thesis
      using assms(1,5) def
      by (cases "castSlots vs") (auto simp add: updateDay_def vs_def split: if_splits)
  qed
  then obtain sl where sl: "castSlots vs = Some sl" by blast
  have sl_empty: "(sl = []) = (vs = [])" using castSlots_empty_iff [OF sl] .
  have vs_truthy: "b \<Longrightarrow> slots \<noteq> None \<Longrightarrow> vs \<noteq> []"
    using assms(2) by (auto simp add: vs_def validatedSlots_nonempty)
  have all_day: "b \<Longrightarrow> slots = Some xs \<Longrightarrow> filter isSlotObject xs = [] \<Longrightarrow> sl = [allDaySlot]" for xs
    using assms(2) sl validatedSlots_all_day [of isAvailable xs]
    by (simp add: vs_def castSlots_all_day)
  show ?thesis
  proof (cases "list_ex (\<lambda>a. a_day a = day) av")
    case True
    then obtain a where a: "find (\<lambda>a. a_day a = day) av = Some a" "a_day a = day"
      using find_ex_Some [of "\<lambda>a. a_day a = day" av] by blast
    define f where "f = (\<lambda>a::availabilityDay. if \<not> jsTruthy isAvailable then
                            a\<lparr>a_isAvailable := Some b, a_slots := []\<rparr>
                          else if vs \<noteq> [] then a\<lparr>a_isAvailable := Some b, a_slots := sl\<rparr>
                          else if a_slots a = [] then
                            a\<lparr>a_isAvailable := Some b, a_slots := [allDaySlot]\<rparr>
                          else a\<lparr>a_isAvailable := Some b\<rparr>)"
    have av': "av' = updateFirst (\<lambda>a. a_day a = day) f av"
      using assms(1,5) True def sl unfolding f_def vs_def by (simp add: updateDay_def)
    have keep: "a_day (f x) = a_day x" for x by (simp add: f_def)
    have inv_f: "dayInvariant (f x)" for x
      using assms(2) sl_empty by (auto simp add: f_def dayInvariant_def allDaySlot_def)
    have inv: "list_all dayInvariant av'"
      unfolding av' using assms(3) inv_f by (intro list_all_updateFirst) simp_all
    have fnd: "find (\<lambda>a. a_day a = day) av' = Some (f a)"
      unfolding av' using a keep by (simp add: find_updateFirst)
    have flag: "a_isAvailable (f a) = Some b" by (simp add: f_def)
    have slots_ok: "if b then a_slots (f a) \<noteq> [] else a_slots (f a) = []"
      using assms(2) sl_empty by (auto simp add: f_def allDaySlot_def)
    have ad: "b \<longrightarrow> (\<forall>xs. slots = Some xs \<longrightarrow> filter isSlotObject xs = []
                        \<longrightarrow> a_slots (f a) = [allDaySlot])"
      using assms(2) all_day vs_truthy by (auto simp add: f_def)
    from inv fnd flag slots_ok ad show ?thesis by blast
  next
    case False
    with assms(4) have c: "\<not> b \<or> slots \<noteq> None" by simp
    have sl': "castSlots (if isAvailable \<noteq> JBool False then vs else []) = Some sl"
      using sl nf vs_falsy by (auto simp add: castSlots_def)
    define e where "e = \<lparr> a_day = day, a_isAvailable = Some b, a_slots = sl \<rparr>"
    have av': "av' = av @ [e]"
      using assms(1,5) False def sl'
      by (simp add: updateDay_def e_def flip: vs_def)
    have slots_ok: "if b then a_slots e \<noteq> [] else a_slots e = []"
      using c sl_empty vs_falsy vs_truthy by (auto simp add: e_def)
    have inv: "list_all dayInvariant av'"
      unfolding av' using assms(3) slots_ok by (auto simp add: dayInvariant_def e_def)
    have fnd: "find (\<lambda>a. a_day a = day) av' = Some e"
      unfolding av' using False by (simp add: find_append_new e_def)
    have ad: "b \<longrightarrow> (\<forall>xs. slots = Some xs \<longrightarrow> filter isSlotObject xs = []
                        \<longrightarrow> a_slots e = [allDaySlot])"
      using all_day by (auto simp add: e_def)
    from inv fnd slots_ok ad show ?thesis by (auto simp add: e_def)
  qed
qed

lemma updateDay_days:
  assumes "day \<in> set validDays" and "list_all (\<lambda>a. a_day a \<in> set validDays) av"
    and "updateDay day isAvailable vs av = Inr av'"
  shows "list_all (\<lambda>a. a_day a \<in> set validDays) av'"
proof -
  have upd: "list_all (\<lambda>a. a_day a \<in> set validDays) (updateFirst (\<lambda>a. a_day a = day) f av)"
    if "\<And>x. a_day (f x) = a_day x" for f :: "availabilityDay \<Rightarrow> availabilityDay"
    using assms(2) that by (intro list_all_updateFirst) simp_all
  show ?thesis
  proof (cases "list_ex (\<lambda>a. a_day a = day) av")
    case False
    then show ?thesis
      using assms by (auto simp add: updateDay_def split: sum.splits option.splits if_splits)
  next
    case True
    show ?thesis
    proof (cases "isAvailable = JUndefined")
      case False
      with True assms(3) obtain flag slots where
        "av' = updateFirst (\<lambda>a. a_day a = day)
                 (\<lambda>a. if \<not> jsTruthy isAvailable then
                         a\<lparr>a_isAvailable := flag, a_slots := []\<rparr>
                       else if vs \<noteq> [] then a\<lparr>a_isAvailable := flag, a_slots := slots\<rparr>
                       else if a_slots a = [] then
                         a\<lparr>a_isAvailable := flag, a_slots := [allDaySlot]\<rparr>
                       else a\<lparr>a_isAvailable := flag\<rparr>)
                 av"
        by (auto simp add: updateDay_def split: sum.splits option.splits)
      then show ?thesis using upd by simp
    next
      case undef: True
      show ?thesis
      proof (cases "vs \<noteq> []")
        case False
        with True undef assms show ?thesis by (simp add: updateDay_def)
      next
        case True
        with \<open>list_ex (\<lambda>a. a_day a = day) av\<close> undef assms(3) obtain slots where
          "av' = updateFirst (\<lambda>a. a_day a = day) (\<lambda>a. a\<lparr>a_slots := slots\<rparr>) av"
          by (auto simp add: updateDay_def split: option.splits)
        then show ?thesis using upd by simp
      qed
    qed
  qed
qed

lemma findUser_saved:
  "findUserById s n = Some usr \<Longrightarrow> u_id usr' = u_id usr \<Longrightarrow>
   findUserById (saveUser usr' s) n = Some usr'"
proof -
  assume a: "findUserById s n = Some usr" and b: "u_id usr' = u_id usr"
  from a have idn: "u_id usr = n" by (auto simp add: findUserById_def dest: find_Some_holds)
  from a have ex: "list_ex (\<lambda>x. u_id x = n) (users s)"
    using find_None_list_ex [of "\<lambda>x. u_id x = n" "users s"] by (simp add: findUserById_def)
  show ?thesis
    using find_replaceFirst_same [of "\<lambda>x. u_id x = n" "users s" usr'] ex idn b
    by (simp add: findUserById_def saveUser_def)
qed

text \<open>
  Claim C6, as amended. Take a per-day update (\<open>updateDayAvailability\<close>) of a valid
  day by a user whose stored entries all satisfy the invariant and carry a day of the
  schema's enum, with an \<open>isAvailable\<close> that the controller's truthiness test and the schema's Boolean cast read as the same
  boolean \<open>b\<close> (\<open>true\<close>, \<open>false\<close>, \<open>1\<close>, \<open>0\<close>, \<open>'true'\<close>, \<open>'1'\<close>,
  \<open>'yes'\<close>), where the day already has an entry, or \<open>b\<close> is false, or the body
  carries a \<open>slots\<close> array. If the update is saved, the stored entries all satisfy
  the invariant, and the entry of the day, which is the one returned, has the flag
  \<open>b\<close> and is as follows: if \<open>b\<close> is false it has no slot; if \<open>b\<close> is true it
  has at least one slot; and if moreover the \<open>slots\<close> array normalizes to zero slots,
  it holds exactly the one all-day slot with both bounds empty. The update is refused
  only when \<open>b\<close> is true and a slot of the array has a bound that the String path
  cannot cast; then nothing is stored. Nothing is said here of a day that has no entry yet
  when the request leaves out \<open>isAvailable\<close> or the array, of an \<open>isAvailable\<close>
  that the controller and the schema read differently, nor of the wholesale
  \<open>updateAvailability\<close>.
\<close>

theorem day_update_keeps_invariant:
  assumes "day \<in> set validDays"
    and "findUserById s (u_id reqUser) = Some usr"
    and "list_all dayInvariant (u_availability usr)"
    and "castBoolean isAvailable = Inr (Some b)" and "jsTruthy isAvailable = b"
    and "list_ex (\<lambda>a. a_day a = day) (u_availability usr) \<or> \<not> b \<or> slots \<noteq> None"
    and "list_all (\<lambda>a. a_day a \<in> set validDays) (u_availability usr)"
  shows "case updateDayAvailability reqUser day isAvailable slots s of
           (Inr entry, s') \<Rightarrow>
             (case findUserById s' (u_id reqUser) of
                Some usr' \<Rightarrow>
                  s' = saveUser usr' s \<and>
                  usr' = usr\<lparr>u_availability := u_availability usr'\<rparr> \<and>
                  list_all dayInvariant (u_availability usr') \<and>
                  list_all (\<lambda>a. a_day a \<in> set validDays) (u_availability usr') \<and>
                  entry = find (\<lambda>a. a_day a = day) (u_availability usr') \<and>
                  (case entry of
                     Some e \<Rightarrow>
                       a_isAvailable e = Some b \<and>
                       (if b then a_slots e \<noteq> [] else a_slots e = []) \<and>
                       (b \<longrightarrow> (\<forall>xs. slots = Some xs \<longrightarrow> filter isSlotObject xs = []
                                 \<longrightarrow> a_slots e = [allDaySlot]))
                   | None \<Rightarrow> False)
              | None \<Rightarrow> False)
         | (Inl e, s') \<Rightarrow>
             e = ValidationError \<and> s' = s \<and> b \<and>
             (case slots of Some xs \<Rightarrow> list_ex hasStructured xs | None \<Rightarrow> False)"
proof (cases "updateDay day isAvailable (validatedSlots isAvailable slots) (u_availability usr)")
  case (Inl e)
  have res: "updateDayAvailability reqUser day isAvailable slots s = (Inl e, s)"
    using assms(1,2) Inl by (simp add: updateDayAvailability_def)
  from updateDay_fails [OF assms(4) Inl] res assms(5) show ?thesis by simp
next
  case (Inr av)
  define usr' where "usr' = usr\<lparr>u_availability := av\<rparr>"
  have res: "updateDayAvailability reqUser day isAvailable slots s
               = (Inr (find (\<lambda>a. a_day a = day) av), saveUser usr' s)"
    using assms(1,2) Inr by (simp add: updateDayAvailability_def usr'_def)
  have stored: "findUserById (saveUser usr' s) (u_id reqUser) = Some usr'"
    using findUser_saved [OF assms(2), of usr'] by (simp add: usr'_def)
  have av: "u_availability usr' = av" "usr' = usr\<lparr>u_availability := u_availability usr'\<rparr>"
    by (simp_all add: usr'_def)
  from updateDay_keeps [OF assms(4,5,3,6) Inr]
  obtain e where e: "list_all dayInvariant av" "find (\<lambda>a. a_day a = day) av = Some e"
      "a_isAvailable e = Some b" "if b then a_slots e \<noteq> [] else a_slots e = []"
      "b \<longrightarrow> (\<forall>xs. slots = Some xs \<longrightarrow> filter isSlotObject xs = []
                    \<longrightarrow> a_slots e = [allDaySlot])"
    by blast
  have days: "list_all (\<lambda>a. a_day a \<in> set validDays) av"
    using updateDay_days [OF assms(1,7) Inr] .
  show ?thesis
    unfolding res using stored av e days by simp
qed

text \<open>
  The amended claim C6 on Alice's Monday: marked available with an array that holds no
  slot object, it is stored with the all-day slot; marked unavailable, it is stored
  without slots whatever the array.
\<close>

theorem day_update_witness:
  "''Monday'' \<in> set validDays \<and> findUserById mondayOnly (u_id alice) = Some aliceMondays \<and>
   list_all dayInvariant (u_availability aliceMondays) \<and>
   list_all (\<lambda>a. a_day a \<in> set validDays) (u_availability aliceMondays) \<and>
   castBoolean (JBool True) = Inr (Some True) \<and> jsTruthy (JBool True) = True \<and>
   castBoolean (JNumber 0) = Inr (Some False) \<and> jsTruthy (JNumber 0) = False \<and>
   updateDayAvailability alice ''Monday'' (JBool True) (Some [NotAnObject]) mondayOnly
     = (Inr (Some \<lparr> a_day = ''Monday'', a_isAvailable = Some True, a_slots = [allDaySlot] \<rparr>),
        mondayOnly\<lparr> users :=
          [alice\<lparr> u_availability :=
             [\<lparr> a_day = ''Monday'', a_isAvailable = Some True, a_slots = [allDaySlot] \<rparr>] \<rparr>,
           bob] \<rparr>) \<and>
   fst (updateDayAvailability alice ''Monday'' (JNumber 0)
          (Some [SlotObject (Str ''10:00'') (Str ''11:00'')]) mondayOnly)
     = Inr (Some \<lparr> a_day = ''Monday'', a_isAvailable = Some False, a_slots = [] \<rparr>)"
proof -
  have h1: "''Monday'' \<in> set validDays" by code_simp
  have h2: "findUserById mondayOnly (u_id alice) = Some aliceMondays" by code_simp
  have h3: "list_all dayInvariant (u_availability aliceMondays)" by code_simp
  have c1: "castBoolean (JBool True) = Inr (Some True)" by simp
  have t1: "jsTruthy (JBool True) = True" by simp
  have c2: "castBoolean (JNumber 0) = Inr (Some False)" by simp
  have t2: "jsTruthy (JNumber 0) = False" by simp
  have h4: "list_ex (\<lambda>a. a_day a = ''Monday'') (u_availability aliceMondays) \<or> \<not> True \<or>
            Some [NotAnObject] \<noteq> None"
    by simp
  have h5: "list_ex (\<lambda>a. a_day a = ''Monday'') (u_availability aliceMondays) \<or> \<not> False \<or>
            Some [SlotObject (Str ''10:00'') (Str ''11:00'')] \<noteq> None"
    by simp
  have h6: "list_all (\<lambda>a. a_day a \<in> set validDays) (u_availability aliceMondays)"
    by code_simp
  have e1: "updateDayAvailability alice ''Monday'' (JBool True) (Some [NotAnObject]) mondayOnly
     = (Inr (Some \<lparr> a_day = ''Monday'', a_isAvailable = Some True, a_slots = [allDaySlot] \<rparr>),
        mondayOnly\<lparr> users :=
          [alice\<lparr> u_availability :=
             [\<lparr> a_day = ''Monday'', a_isAvailable = Some True, a_slots = [allDaySlot] \<rparr>] \<rparr>,
           bob] \<rparr>)"
    by code_simp
  have e2: "fst (updateDayAvailability alice ''Monday'' (JNumber 0)
          (Some [SlotObject (Str ''10:00'') (Str ''11:00'')]) mondayOnly)
     = Inr (Some \<lparr> a_day = ''Monday'', a_isAvailable = Some False, a_slots = [] \<rparr>)"
    by code_simp
  from day_update_keeps_invariant [OF h1 h2 h3 c1 t1 h4 h6]
    day_update_keeps_invariant [OF h1 h2 h3 c2 t2 h5 h6] h1 h2 h3 h6 c1 t1 c2 t2 e1 e2
  show ?thesis by blast
qed

text \<open>
  Claim C6 as stated fails, in three ways. \<open>updateAvailability\<close> stores the array of
  the request as it is: after it, Alice's Monday is unavailable with a slot and Alice's
  Tuesday is available with none. \<open>updateDayAvailability\<close> stores a day that has no
  entry yet as available with no slot when the request leaves out \<open>isAvailable\<close>, or
  the \<open>slots\<close> array. And when \<open>isAvailable\<close> is the string \<open>'false'\<close>, which is
  truthy for the controller and false for the schema, it stores the day as unavailable
  with the slots of the request.
\<close>

theorem availability_invariant_counterexample:
  "updateAvailability alice (Some badWeek) store0
     = (Inr badWeek, store0\<lparr> users := [alice\<lparr>u_availability := badWeek\<rparr>, bob] \<rparr>) \<and>
   map_option u_availability
       (findUserById (snd (updateAvailability alice (Some badWeek) store0)) 1) = Some badWeek \<and>
   \<not> dayInvariant (badWeek ! 0) \<and> \<not> dayInvariant (badWeek ! 1) \<and>
   fst (updateDayAvailability alice ''Tuesday'' JUndefined None mondayOnly)
     = Inr (Some \<lparr> a_day = ''Tuesday'', a_isAvailable = Some True, a_slots = [] \<rparr>) \<and>
   fst (updateDayAvailability alice ''Tuesday'' (JBool True) None mondayOnly)
     = Inr (Some \<lparr> a_day = ''Tuesday'', a_isAvailable = Some True, a_slots = [] \<rparr>) \<and>
   map_option u_availability
       (findUserById (snd (updateDayAvailability alice ''Tuesday'' (JBool True) None mondayOnly)) 1)
     = Some [\<lparr> a_day = ''Monday'', a_isAvailable = Some True,
                a_slots = [\<lparr> s_startTime = ''09:00'', s_endTime = ''17:00'' \<rparr>] \<rparr>,
             \<lparr> a_day = ''Tuesday'', a_isAvailable = Some True, a_slots = [] \<rparr>] \<and>
   fst (updateDayAvailability alice ''Monday'' (JString ''false'')
          (Some [SlotObject (Str ''10:00'') (Str ''11:00'')]) mondayOnly)
     = Inr (Some \<lparr> a_day = ''Monday'', a_isAvailable = Some False,
                   a_slots = [\<lparr> s_startTime = ''10:00'', s_endTime = ''11:00'' \<rparr>] \<rparr>)"
  by (intro conjI; code_simp)

text \<open>
  A bound that is a plain object cannot be stored: the request is refused and Alice's week
  stays as it was. An \<open>isAvailable\<close> that is no boolean for the schema is refused as
  well.
\<close>

lemma uncastable_values_are_refused:
  "updateDayAvailability alice ''Monday'' (JBool True)
       (Some [SlotObject Structured (Str ''11:00'')]) mondayOnly
     = (Inl ValidationError, mondayOnly) \<and>
   updateDayAvailability alice ''Monday'' (JString ''maybe'') None mondayOnly
     = (Inl ValidationError, mondayOnly)"
  by (intro conjI; code_simp)

end
